theory Spec2Isabelle
  imports Main
begin

section \<open>Data model\<close>

text \<open>
  The module \<open>generator.py\<close> drives external tools (CSmith, YARPGen, the instrumenter
  DCEI, the Builder and the Checker). Each of them is an oracle over an explicit world
  state \<open>'w\<close>: a call takes the world and returns its result with the new world.
  A Python \<open>str\<close> is a \<open>string\<close> here, one \<open>char\<close> for each element that Python's
  \<open>len\<close> counts.
\<close>

text \<open>The exceptions that travel through the module. \<open>PyException msg\<close> is the plain
  \<open>Exception(msg)\<close> that both program generators raise when they give up.\<close>

datatype error =
    CompileError
  | TimeoutExpired
  | PyException string
  | AssertionError
  | IndexError
  | OtherError string

text \<open>\<open>subprocess.CompletedProcess\<close>, with \<open>stdout\<close> already decoded.\<close>

record completed_process =
  returncode :: int
  stdout :: string

text \<open>Modelled from the spec: \<open>utils.CompilerSetting\<close> is not part of the source file.
  The spec gives it a toolchain identity, flags and an optimization level; the module
  reads \<open>opt_level\<close> only.\<close>

record compiler_setting =
  toolchain :: string
  flags :: "string list"
  opt_level :: string

text \<open>Modelled from the spec: \<open>utils.Scenario\<close>, the target and attacker settings.\<close>

record scenario =
  target_settings :: "compiler_setting list"
  attacker_settings :: "compiler_setting list"

text \<open>\<open>utils.Case\<close> with the eight keyword arguments of its constructor call.\<close>

record case_t =
  code :: string
  marker :: string
  bad_setting :: compiler_setting
  good_settings :: "compiler_setting list"
  case_scenario :: scenario
  reduced_code :: "string option"
  bisection :: "string option"
  path :: "string option"

text \<open>The per-generator part of the configuration (\<open>config.csmith\<close>, \<open>config.yarpgen\<close>).\<close>

record exec_config =
  executable :: string
  include_path :: string
  max_size :: int
  min_size :: int

record config =
  csmith :: exec_config
  yarpgen :: exec_config
  llvm_sane_version :: string
  dcei :: string

text \<open>
  The collaborators of the module. \<open>random_raw\<close> is the random source behind
  \<open>random.randint\<close>; \<open>temporary_directory\<close> and \<open>named_temporary_file\<close> enter a scoped
  temporary resource and the two \<open>cleanup\<close> fields leave it; \<open>read_text\<close> opens a file
  for reading and returns its text. \<open>find_include_paths\<close> and \<open>run_cmd\<close> are functions of
  \<open>utils\<close>, \<open>find_alive_markers\<close> of \<open>builder\<close>, \<open>is_interesting\<close> of the Checker
  and \<open>add_flags\<close> a method of the scenario: none of them is in the source file, so each
  is a parameter. \<open>set_iter\<close> is the order in which Python iterates over a set.
\<close>

record 'w env =
  random_raw :: "'w \<Rightarrow> nat \<times> 'w"
  subprocess_run :: "string list \<Rightarrow> 'w \<Rightarrow> completed_process \<times> 'w"
  temporary_directory :: "'w \<Rightarrow> string \<times> 'w"
  cleanup_directory :: "string \<Rightarrow> 'w \<Rightarrow> 'w"
  named_temporary_file :: "string \<Rightarrow> 'w \<Rightarrow> string \<times> 'w"
  cleanup_file :: "string \<Rightarrow> 'w \<Rightarrow> 'w"
  read_text :: "string \<Rightarrow> 'w \<Rightarrow> error + string"
  write_text :: "string \<Rightarrow> string \<Rightarrow> 'w \<Rightarrow> 'w"
  find_include_paths :: "string \<Rightarrow> string \<Rightarrow> string \<Rightarrow> 'w \<Rightarrow> (error + string list) \<times> 'w"
  run_cmd :: "string list \<Rightarrow> 'w \<Rightarrow> (error + string) \<times> 'w"
  find_alive_markers ::
    "string \<Rightarrow> compiler_setting \<Rightarrow> string \<Rightarrow> 'w \<Rightarrow> (error + string set) \<times> 'w"
  is_interesting :: "case_t \<Rightarrow> 'w \<Rightarrow> (error + bool) \<times> 'w"
  add_flags :: "string list \<Rightarrow> scenario \<Rightarrow> scenario"
  set_iter :: "string set \<Rightarrow> string list"

section \<open>Program generators\<close>

text \<open>\<open>random.randint(lo, hi)\<close>: a value of the closed range, drawn from the world.\<close>

definition randint :: "'w env \<Rightarrow> int \<Rightarrow> int \<Rightarrow> 'w \<Rightarrow> int \<times> 'w" where
  "randint env lo hi w =
     (case random_raw env w of (r, w') \<Rightarrow> (lo + int r mod (hi - lo + 1), w'))"

subsection \<open>\<open>run_csmith\<close>\<close>

definition csmith_options :: "string list" where
  "csmith_options =
     [''arrays'', ''bitfields'', ''checksum'', ''comma-operators'', ''compound-assignment'',
      ''consts'', ''divs'', ''embedded-assigns'', ''jumps'', ''longlong'',
      ''force-non-uniform-arrays'', ''math64'', ''muls'', ''packed-struct'', ''paranoid'',
      ''pointers'', ''structs'', ''inline-function'', ''return-structs'', ''arg-structs'',
      ''dangling-global-pointers'']"

text \<open>The loop over \<open>options\<close>: one coin per option, appended to the command line.\<close>

fun csmith_flags :: "'w env \<Rightarrow> string list \<Rightarrow> string list \<Rightarrow> 'w \<Rightarrow> string list \<times> 'w" where
  "csmith_flags env [] cmd w = (cmd, w)"
| "csmith_flags env (option # options) cmd w =
     (case randint env 0 1 w of (r, w') \<Rightarrow>
        csmith_flags env options
          (cmd @ [if r \<noteq> 0 then ''--'' @ option else ''--no-'' @ option]) w')"

text \<open>One pass through the body of the \<open>while True\<close> up to \<open>subprocess.run\<close>.\<close>

definition csmith_invoke :: "'w env \<Rightarrow> string \<Rightarrow> 'w \<Rightarrow> completed_process \<times> 'w" where
  "csmith_invoke env csmith_exe w =
     (case csmith_flags env csmith_options
             [csmith_exe, ''--no-unions'', ''--safe-math'', ''--no-argc'', ''--no-volatiles'',
              ''--no-volatile-pointers''] w of
        (cmd, w1) \<Rightarrow> subprocess_run env cmd w1)"

function run_csmith_loop :: "'w env \<Rightarrow> string \<Rightarrow> nat \<Rightarrow> 'w \<Rightarrow> (error + string) \<times> 'w" where
  "run_csmith_loop env csmith_exe tries w =
     (case csmith_invoke env csmith_exe w of (result, w') \<Rightarrow>
        if returncode result = 0 then (Inr (stdout result), w')
        else if tries + 1 > 10
          then (Inl (PyException ''CSmith failed 10 times in a row!''), w')
          else run_csmith_loop env csmith_exe (tries + 1) w')"
  by pat_completeness auto
termination
  by (relation "measure (\<lambda>(env, csmith_exe, tries, w). 11 - tries)") auto

definition run_csmith :: "'w env \<Rightarrow> string \<Rightarrow> 'w \<Rightarrow> (error + string) \<times> 'w" where
  "run_csmith env csmith_exe w = run_csmith_loop env csmith_exe 0 w"

declare run_csmith_loop.simps [simp del]

subsection \<open>\<open>run_yarpgen\<close>\<close>

text \<open>\<open>os.path.join\<close> on two components (POSIX).\<close>

definition pjoin :: "string \<Rightarrow> string \<Rightarrow> string" where
  "pjoin a b =
     (if b \<noteq> [] \<and> hd b = CHR ''/'' then b
      else if a = [] \<or> last a = CHR ''/'' then a @ b
      else a @ ''/'' @ b)"

text \<open>\<open>f.readlines()\<close> on a text: the lines in order, each one keeping its newline.\<close>

fun readlines :: "string \<Rightarrow> string list" where
  "readlines [] = []"
| "readlines (c # cs) =
     (if c = CHR 0x0A then [c] # readlines cs
      else (case readlines cs of [] \<Rightarrow> [[c]] | l # ls \<Rightarrow> (c # l) # ls))"

text \<open>\<open>str.replace(old, new)\<close>: the occurrences of \<open>old\<close> are found from the left and do
  not overlap; with an empty \<open>old\<close> Python puts \<open>new\<close> around every character.\<close>

function replace_from :: "string \<Rightarrow> string \<Rightarrow> string \<Rightarrow> string" where
  "replace_from old new [] = []"
| "replace_from old new (c # cs) =
     (if old \<noteq> [] \<and> take (length old) (c # cs) = old
      then new @ replace_from old new (drop (length old) (c # cs))
      else c # replace_from old new cs)"
  by pat_completeness auto
termination
  by (relation "measure (\<lambda>(old, new, s). length s)") auto

definition replace :: "string \<Rightarrow> string \<Rightarrow> string \<Rightarrow> string" where
  "replace old new s =
     (if old = [] then new @ concat (map (\<lambda>c. c # new) s) else replace_from old new s)"

definition nsa_options :: "string list" where
  "nsa_options = [''inp-as-args'', ''emit-align-attr'', ''emit-pragmas'', ''allow-ub-in-dc'']"

definition tf_options :: "string list" where
  "tf_options = [''allow-dead-data'', ''param-shuffle'', ''expl-loop-param'']"

definition align_sizes :: "string list" where
  "align_sizes = [''16'', ''32'', ''64'']"

definition nsa :: "string list" where
  "nsa = [''none'', ''some'', ''all'']"

definition nea :: "string list" where
  "nea = [''none'', ''exprs'', ''all'']"

definition tf :: "string list" where
  "tf = [''true'', ''false'']"

definition gen_files :: "string list" where
  "gen_files = [''driver.c'', ''func.c'']"

definition init_include :: string where
  \<open>init_include = ''#include "init.h"'' @ [CHR 0x0A]\<close>

text \<open>The two \<open>for option in ...\<close> loops: \<open>ri = randint(0, hi)\<close>, then the option with
  \<open>choices[ri]\<close> is appended.\<close>

fun yarpgen_flags ::
  "'w env \<Rightarrow> int \<Rightarrow> string list \<Rightarrow> string list \<Rightarrow> string list \<Rightarrow> 'w \<Rightarrow> string list \<times> 'w" where
  "yarpgen_flags env hi choices [] cmd w = (cmd, w)"
| "yarpgen_flags env hi choices (option # options) cmd w =
     (case randint env 0 hi w of (ri, w') \<Rightarrow>
        yarpgen_flags env hi choices options
          (cmd @ [''--'' @ option @ ''='' @ choices ! nat ri]) w')"

text \<open>The body of the \<open>with\<close> block up to \<open>subprocess.run\<close>.\<close>

definition yarpgen_invoke :: "'w env \<Rightarrow> string \<Rightarrow> string \<Rightarrow> 'w \<Rightarrow> completed_process \<times> 'w" where
  "yarpgen_invoke env yarpgen_exe out_dir w =
     (case yarpgen_flags env 2 nsa nsa_options
             [yarpgen_exe, ''--std=c'', ''--out-dir='' @ out_dir] w of (cmd1, w1) \<Rightarrow>
      case yarpgen_flags env 1 tf tf_options cmd1 w1 of (cmd2, w2) \<Rightarrow>
      case randint env 0 2 w2 of (ri, w3) \<Rightarrow>
      case randint env 0 2 w3 of (ri', w4) \<Rightarrow>
        subprocess_run env
          (cmd2 @ [''--mutate='' @ nea ! nat ri] @ [''--align-size='' @ align_sizes ! nat ri']) w4)"

text \<open>\<open>for name in gen_files\<close>: every file is opened and read as a list of lines; the first
  file that cannot be read raises.\<close>

fun read_files :: "'w env \<Rightarrow> string \<Rightarrow> string list \<Rightarrow> 'w \<Rightarrow> error + string list list" where
  "read_files env out_dir [] w = Inr []"
| "read_files env out_dir (name # names) w =
     (case read_text env (pjoin out_dir name) w of
        Inl e \<Rightarrow> Inl e
      | Inr text \<Rightarrow>
          (case read_files env out_dir names w of
             Inl e \<Rightarrow> Inl e
           | Inr content \<Rightarrow> Inr (readlines text # content)))"

text \<open>From the \<open>assert\<close> to the \<open>return\<close>. \<open>content[1][5]\<close> raises \<open>IndexError\<close> when the
  second file has fewer than six lines.\<close>

definition yarpgen_concat :: "string list list \<Rightarrow> error + string" where
  "yarpgen_concat content =
     (if length content \<le> 1 \<or> length (content ! 1) \<le> 5 then Inl IndexError
      else if content ! 1 ! 5 \<noteq> init_include then Inl AssertionError
      else Inr (replace ''void test'' ''static void test''
             (concat (concat (content[1 := take 5 (content ! 1) @ drop 6 (content ! 1)])))))"

definition yarpgen_collect :: "'w env \<Rightarrow> string \<Rightarrow> 'w \<Rightarrow> error + string" where
  "yarpgen_collect env out_dir w =
     (case read_files env out_dir gen_files w of
        Inl e \<Rightarrow> Inl e
      | Inr content \<Rightarrow> yarpgen_concat content)"

text \<open>The \<open>while True\<close> loop. The temporary directory is removed whenever the \<open>with\<close> block
  is left: by the \<open>return\<close>, by an exception, or at the end of a failed round.\<close>

function run_yarpgen_loop :: "'w env \<Rightarrow> string \<Rightarrow> nat \<Rightarrow> 'w \<Rightarrow> (error + string) \<times> 'w" where
  "run_yarpgen_loop env yarpgen_exe tries w =
     (case temporary_directory env w of (out_dir, w0) \<Rightarrow>
      case yarpgen_invoke env yarpgen_exe out_dir w0 of (result, w1) \<Rightarrow>
        if returncode result = 0
        then (yarpgen_collect env out_dir w1, cleanup_directory env out_dir w1)
        else if tries + 1 > 100
          then (Inl (PyException ''YARPGen failed 10 times in a row!''),
                cleanup_directory env out_dir w1)
          else run_yarpgen_loop env yarpgen_exe (tries + 1) (cleanup_directory env out_dir w1))"
  by pat_completeness auto
termination
  by (relation "measure (\<lambda>(env, yarpgen_exe, tries, w). 101 - tries)") auto

declare run_yarpgen_loop.simps [simp del]

definition run_yarpgen :: "'w env \<Rightarrow> string \<Rightarrow> 'w \<Rightarrow> (error + string) \<times> 'w" where
  "run_yarpgen env yarpgen_exe w = run_yarpgen_loop env yarpgen_exe 0 w"

section \<open>Instrumentation pipeline\<close>

definition instrument_program ::
  "'w env \<Rightarrow> string \<Rightarrow> string \<Rightarrow> string list \<Rightarrow> 'w \<Rightarrow> (error + string) \<times> 'w" where
  "instrument_program env dcei_exe file include_paths w =
     (case run_cmd env
             ([dcei_exe, file] @ map (\<lambda>path. ''--extra-arg=-isystem'' @ path) include_paths) w of
        (Inl e, w') \<Rightarrow> (Inl e, w')
      | (Inr out, w') \<Rightarrow> (Inr ''DCEMarker'', w'))"

text \<open>The \<open>with NamedTemporaryFile\<close> block of \<open>generate_file\<close>: the candidate is printed
  into the file (\<open>print\<close> adds a newline), the include paths are resolved, the file is
  instrumented in place and read back. The file is removed however the block is left.\<close>

definition instrument_candidate ::
  "'w env \<Rightarrow> config \<Rightarrow> exec_config \<Rightarrow> string \<Rightarrow> string \<Rightarrow> 'w \<Rightarrow>
   (error + string \<times> string) \<times> 'w" where
  "instrument_candidate env cfg exec_cfg additional_flags candidate w =
     (case named_temporary_file env ''.c'' w of (ntf, w0) \<Rightarrow>
     (case find_include_paths env (llvm_sane_version cfg) ntf additional_flags
             (write_text env ntf (candidate @ [CHR 0x0A]) w0) of
        (Inl e, w2) \<Rightarrow> (Inl e, cleanup_file env ntf w2)
      | (Inr include_paths, w2) \<Rightarrow>
          (case instrument_program env (dcei cfg) ntf
                  (include_paths @ [include_path exec_cfg]) w2 of
             (Inl e, w3) \<Rightarrow> (Inl e, cleanup_file env ntf w3)
           | (Inr marker_prefix, w3) \<Rightarrow>
               (case read_text env ntf w3 of
                  Inl e \<Rightarrow> (Inl e, cleanup_file env ntf w3)
                | Inr text \<Rightarrow> (Inr (marker_prefix, text), cleanup_file env ntf w3)))))"

text \<open>The \<open>while True\<close> loop of \<open>generate_file\<close>. It has no bound, so the model is a
  partial function: \<open>None\<close> is the run that never leaves the loop. Only
  \<open>subprocess.TimeoutExpired\<close> is caught; every other exception leaves the function.\<close>

partial_function (option) generate_file_loop ::
  "'w env \<Rightarrow> ('w \<Rightarrow> (error + string) \<times> 'w) \<Rightarrow> config \<Rightarrow> exec_config \<Rightarrow> string \<Rightarrow> 'w \<Rightarrow>
   ((error + string \<times> string) \<times> 'w) option" where
  "generate_file_loop env gen_program cfg exec_cfg additional_flags w =
     (case gen_program w of
        (Inl e, w1) \<Rightarrow>
          if e = TimeoutExpired
          then generate_file_loop env gen_program cfg exec_cfg additional_flags w1
          else Some (Inl e, w1)
      | (Inr candidate, w1) \<Rightarrow>
          if int (length candidate) > max_size exec_cfg
          then generate_file_loop env gen_program cfg exec_cfg additional_flags w1
          else if int (length candidate) < min_size exec_cfg
          then generate_file_loop env gen_program cfg exec_cfg additional_flags w1
          else (case instrument_candidate env cfg exec_cfg additional_flags candidate w1 of
                  (Inl e, w2) \<Rightarrow>
                    if e = TimeoutExpired
                    then generate_file_loop env gen_program cfg exec_cfg additional_flags w2
                    else Some (Inl e, w2)
                | (Inr instrumented, w2) \<Rightarrow> Some (Inr instrumented, w2)))"

declare generate_file_loop.simps [code]

text \<open>\<open>generate_file\<close> (the name is a command of Isabelle, hence the suffix).\<close>

definition generate_file_py ::
  "'w env \<Rightarrow> ('w \<Rightarrow> (error + string) \<times> 'w) \<Rightarrow> config \<Rightarrow> exec_config \<Rightarrow> string \<Rightarrow> 'w \<Rightarrow>
   ((error + string \<times> string) \<times> 'w) option" where
  "generate_file_py env gen_program cfg exec_cfg additional_flags w =
     generate_file_loop env gen_program cfg exec_cfg
       (additional_flags @ '' -I '' @ include_path exec_cfg) w"

section \<open>Case discovery\<close>

text \<open>The two list comprehensions of the \<open>try\<close> block: the settings are taken in order and
  the first exception of \<open>builder.find_alive_markers\<close> ends the comprehension.\<close>

fun alive_marker_list ::
  "'w env \<Rightarrow> string \<Rightarrow> string \<Rightarrow> compiler_setting list \<Rightarrow> 'w \<Rightarrow>
   (error + (compiler_setting \<times> string set) list) \<times> 'w" where
  "alive_marker_list env candidate_code marker_prefix [] w = (Inr [], w)"
| "alive_marker_list env candidate_code marker_prefix (tt # tts) w =
     (case find_alive_markers env candidate_code tt marker_prefix w of
        (Inl e, w') \<Rightarrow> (Inl e, w')
      | (Inr marker_set, w') \<Rightarrow>
          (case alive_marker_list env candidate_code marker_prefix tts w' of
             (Inl e, w'') \<Rightarrow> (Inl e, w'')
           | (Inr rest, w'') \<Rightarrow> (Inr ((tt, marker_set) # rest), w'')))"

text \<open>\<open>for bad_setting, bad_alive_markers in target_alive_marker_list\<close>. \<open>Some case\<close> is the
  \<open>return case\<close>; \<open>None\<close> is the loop running to its end. A \<open>CompileError\<close> of the
  Checker is caught and the loop goes on; any other exception leaves the function.\<close>

fun find_bad ::
  "'w env \<Rightarrow> string \<Rightarrow> scenario \<Rightarrow> string \<Rightarrow> compiler_setting list \<Rightarrow> string list \<Rightarrow>
   (compiler_setting \<times> string set) list \<Rightarrow> 'w \<Rightarrow> (error + case_t option) \<times> 'w" where
  "find_bad env candidate_code scn mk good good_opt_levels [] w = (Inr None, w)"
| "find_bad env candidate_code scn mk good good_opt_levels
     ((bad, bad_alive_markers) # rest) w =
     (if mk \<in> bad_alive_markers \<and> opt_level bad \<in> set good_opt_levels
      then
        (case is_interesting env
                \<lparr>code = candidate_code, marker = mk, bad_setting = bad, good_settings = good,
                 case_scenario = scn, reduced_code = None, bisection = None, path = None\<rparr> w of
           (Inr interesting, w') \<Rightarrow>
             if interesting
             then (Inr (Some
                    \<lparr>code = candidate_code, marker = mk, bad_setting = bad,
                     good_settings = good, case_scenario = scn, reduced_code = None,
                     bisection = None, path = None\<rparr>), w')
             else find_bad env candidate_code scn mk good good_opt_levels rest w'
         | (Inl e, w') \<Rightarrow>
             if e = CompileError
             then find_bad env candidate_code scn mk good good_opt_levels rest w'
             else (Inl e, w'))
      else find_bad env candidate_code scn mk good good_opt_levels rest w)"

text \<open>\<open>for marker in target_alive_markers\<close>, over the markers in iteration order.\<close>

fun extract_cases ::
  "'w env \<Rightarrow> string \<Rightarrow> scenario \<Rightarrow> (compiler_setting \<times> string set) list \<Rightarrow>
   (compiler_setting \<times> string set) list \<Rightarrow> string list \<Rightarrow> 'w \<Rightarrow>
   (error + case_t option) \<times> 'w" where
  "extract_cases env candidate_code scn target_alive tester_alive [] w = (Inr None, w)"
| "extract_cases env candidate_code scn target_alive tester_alive (mk # mks) w =
     (let good = map fst (filter (\<lambda>(good_setting, good_alive_markers).
                   mk \<notin> good_alive_markers) tester_alive)
      in if length good > 0
         then (case find_bad env candidate_code scn mk good (map opt_level good)
                      target_alive w of
                 (Inr None, w') \<Rightarrow>
                   extract_cases env candidate_code scn target_alive tester_alive mks w'
               | (Inr (Some c), w') \<Rightarrow> (Inr (Some c), w')
               | (Inl e, w') \<Rightarrow> (Inl e, w'))
         else extract_cases env candidate_code scn target_alive tester_alive mks w)"

text \<open>The \<open>try\<close> block of one attempt: the alive markers of the target settings, then
  those of the attacker settings.\<close>

definition alive_markers ::
  "'w env \<Rightarrow> string \<Rightarrow> string \<Rightarrow> scenario \<Rightarrow> 'w \<Rightarrow>
   (error + (compiler_setting \<times> string set) list \<times> (compiler_setting \<times> string set) list) \<times> 'w"
  where
  "alive_markers env candidate_code marker_prefix scn w =
     (case alive_marker_list env candidate_code marker_prefix (target_settings scn) w of
        (Inl e, w1) \<Rightarrow> (Inl e, w1)
      | (Inr target_alive, w1) \<Rightarrow>
          (case alive_marker_list env candidate_code marker_prefix (attacker_settings scn) w1 of
             (Inl e, w2) \<Rightarrow> (Inl e, w2)
           | (Inr tester_alive, w2) \<Rightarrow> (Inr (target_alive, tester_alive), w2)))"

text \<open>The \<open>while True\<close> loop of \<open>generate_interesting_case\<close>, with \<open>self.try_counter\<close>
  threaded through. \<open>None\<close> is the search that never ends.\<close>

partial_function (option) discovery_loop ::
  "'w env \<Rightarrow> ('w \<Rightarrow> (error + string) \<times> 'w) \<Rightarrow> config \<Rightarrow> exec_config \<Rightarrow> scenario \<Rightarrow> nat \<Rightarrow> 'w \<Rightarrow>
   ((error + case_t) \<times> nat \<times> 'w) option" where
  "discovery_loop env prog_generator cfg exec_cfg scn try_counter w =
     (case generate_file_py env prog_generator cfg exec_cfg [] w of
        None \<Rightarrow> None
      | Some (Inl e, w1) \<Rightarrow> Some (Inl e, try_counter + 1, w1)
      | Some (Inr (marker_prefix, candidate_code), w1) \<Rightarrow>
          (case alive_markers env candidate_code marker_prefix scn w1 of
             (Inl e, w2) \<Rightarrow>
               if e = CompileError
               then discovery_loop env prog_generator cfg exec_cfg scn (try_counter + 1) w2
               else Some (Inl e, try_counter + 1, w2)
           | (Inr (target_alive, tester_alive), w2) \<Rightarrow>
               (case extract_cases env candidate_code scn target_alive tester_alive
                       (set_iter env (\<Union> (set (map snd target_alive)))) w2 of
                  (Inl e, w3) \<Rightarrow> Some (Inl e, try_counter + 1, w3)
                | (Inr (Some c), w3) \<Rightarrow> Some (Inr c, try_counter + 1, w3)
                | (Inr None, w3) \<Rightarrow>
                    discovery_loop env prog_generator cfg exec_cfg scn (try_counter + 1) w3)))"

declare discovery_loop.simps [code]

text \<open>\<open>_get_runner_details\<close> of the two subclasses.\<close>

definition csmith_runner_details ::
  "'w env \<Rightarrow> config \<Rightarrow> ('w \<Rightarrow> (error + string) \<times> 'w) \<times> exec_config \<times> string list" where
  "csmith_runner_details env cfg =
     (run_csmith env (executable (csmith cfg)), csmith cfg,
      [''-I'' @ include_path (csmith cfg)])"

definition yarpgen_runner_details ::
  "'w env \<Rightarrow> config \<Rightarrow> ('w \<Rightarrow> (error + string) \<times> 'w) \<times> exec_config \<times> string list" where
  "yarpgen_runner_details env cfg = (run_yarpgen env (executable (yarpgen cfg)), yarpgen cfg, [])"

text \<open>\<open>generate_interesting_case\<close>, for the runner details of whichever subclass.\<close>

definition generate_interesting_case ::
  "'w env \<Rightarrow> config \<Rightarrow> ('w \<Rightarrow> (error + string) \<times> 'w) \<times> exec_config \<times> string list \<Rightarrow>
   scenario \<Rightarrow> 'w \<Rightarrow> ((error + case_t) \<times> nat \<times> 'w) option" where
  "generate_interesting_case env cfg runner_details scn w =
     (case runner_details of (prog_generator, exec_cfg, additional_flags) \<Rightarrow>
        discovery_loop env prog_generator cfg exec_cfg
          (add_flags env additional_flags scn) 0 w)"

section \<open>A simulated environment\<close>

text \<open>
  A concrete environment on which the model runs. The world is the number of tool
  invocations made so far; \<open>rc\<close> gives the exit code of each invocation. The generated
  files, the instrumented text and the alive markers are fixed.
\<close>

definition demo_program :: string where
  "demo_program = ''int main() { return 0; }''"

definition demo_instrumented :: string where
  "demo_instrumented = ''void DCEMarker7_(void); void DCEMarker8_(void); int main() { }''"

definition demo_driver :: string where
  "demo_driver = concat (map (\<lambda>l. l @ [CHR 0x0A]) [''void test();'', ''int main() { test(); }''])"

definition demo_func :: string where
  \<open>demo_func = concat (map (\<lambda>l. l @ [CHR 0x0A])
     [''/* 1 */'', ''/* 2 */'', ''/* 3 */'', ''/* 4 */'', ''/* 5 */'', ''#include "init.h"'',
      ''void test() { }''])\<close>


definition demo_alive :: "compiler_setting \<Rightarrow> string set" where
  "demo_alive s =
     (if toolchain s = ''gcc-trunk'' \<and> opt_level s = ''O1'' then {''DCEMarker7_'', ''DCEMarker8_''}
      else if toolchain s = ''gcc-trunk'' \<and> opt_level s = ''O2'' then {''DCEMarker7_''}
      else if toolchain s = ''clang-trunk'' then {''DCEMarker8_''}
      else {})"

definition demo_add_flags :: "string list \<Rightarrow> scenario \<Rightarrow> scenario" where
  "demo_add_flags new_flags scn =
     \<lparr>target_settings = map (\<lambda>s. s\<lparr>flags := flags s @ new_flags\<rparr>) (target_settings scn),
      attacker_settings = map (\<lambda>s. s\<lparr>flags := flags s @ new_flags\<rparr>) (attacker_settings scn)\<rparr>"

definition sim_env :: "(nat \<Rightarrow> int) \<Rightarrow> string \<Rightarrow> nat env" where
  "sim_env rc func_text =
     \<lparr>random_raw = (\<lambda>w. (w, w)),
      subprocess_run = (\<lambda>cmd w. (\<lparr>returncode = rc w, stdout = demo_program\<rparr>, Suc w)),
      temporary_directory = (\<lambda>w. (''/tmp/yarpgen'', w)),
      cleanup_directory = (\<lambda>d w. w),
      named_temporary_file = (\<lambda>suffix w. (''/tmp/candidate'' @ suffix, w)),
      cleanup_file = (\<lambda>f w. w),
      read_text = (\<lambda>p w.
        if p = ''/tmp/yarpgen/driver.c'' then Inr demo_driver
        else if p = ''/tmp/yarpgen/func.c'' then Inr func_text
        else if p = ''/tmp/candidate.c'' then Inr demo_instrumented
        else Inl (OtherError ''FileNotFoundError'')),
      write_text = (\<lambda>p text w. w),
      find_include_paths = (\<lambda>version file additional_flags w. (Inr [''/usr/include''], w)),
      run_cmd = (\<lambda>cmd w. (Inr [], w)),
      find_alive_markers = (\<lambda>candidate_code s marker_prefix w. (Inr (demo_alive s), w)),
      is_interesting = (\<lambda>c w. (Inr True, w)),
      add_flags = demo_add_flags,
      set_iter = (\<lambda>S. filter (\<lambda>m. m \<in> S) [''DCEMarker7_'', ''DCEMarker8_''])\<rparr>"

definition demo_config :: config where
  "demo_config =
     \<lparr>csmith = \<lparr>executable = ''csmith'', include_path = ''/usr/include/csmith'',
                max_size = 100, min_size = 10\<rparr>,
      yarpgen = \<lparr>executable = ''yarpgen'', include_path = ''/usr/include/yarpgen'',
                 max_size = 1000, min_size = 10\<rparr>,
      llvm_sane_version = ''llvm-13'',
      dcei = ''dcei''\<rparr>"

definition demo_scenario :: scenario where
  "demo_scenario =
     \<lparr>target_settings =
        [\<lparr>toolchain = ''gcc-trunk'', flags = [], opt_level = ''O1''\<rparr>,
         \<lparr>toolchain = ''gcc-trunk'', flags = [], opt_level = ''O2''\<rparr>],
      attacker_settings =
        [\<lparr>toolchain = ''clang-trunk'', flags = [], opt_level = ''O2''\<rparr>,
         \<lparr>toolchain = ''gcc-11'', flags = [], opt_level = ''O3''\<rparr>]\<rparr>"

definition demo_case :: case_t where
  "demo_case =
     \<lparr>code = demo_instrumented, marker = ''DCEMarker7_'',
      bad_setting =
        \<lparr>toolchain = ''gcc-trunk'', flags = [''-I/usr/include/csmith''], opt_level = ''O2''\<rparr>,
      good_settings =
        [\<lparr>toolchain = ''clang-trunk'', flags = [''-I/usr/include/csmith''], opt_level = ''O2''\<rparr>,
         \<lparr>toolchain = ''gcc-11'', flags = [''-I/usr/include/csmith''], opt_level = ''O3''\<rparr>],
      case_scenario = demo_add_flags [''-I/usr/include/csmith''] demo_scenario,
      reduced_code = None, bisection = None, path = None\<rparr>"

section \<open>Auxiliary notions for the statements\<close>

text \<open>What one attempt guarantees about a case it hands out, in terms of the two lists of
  alive markers the attempt computed.\<close>

definition case_ok ::
  "case_t \<Rightarrow> string \<Rightarrow> scenario \<Rightarrow> (compiler_setting \<times> string set) list \<Rightarrow>
   (compiler_setting \<times> string set) list \<Rightarrow> bool" where
  "case_ok c cc scn ta al \<longleftrightarrow>
     code c = cc \<and> case_scenario c = scn \<and>
     good_settings c = map fst (filter (\<lambda>(g, ms). marker c \<notin> ms) al) \<and>
     good_settings c \<noteq> [] \<and>
     reduced_code c = None \<and> bisection c = None \<and> path c = None \<and>
     (\<exists>ms. (bad_setting c, ms) \<in> set ta \<and> marker c \<in> ms) \<and>
     opt_level (bad_setting c) \<in> opt_level ` set (good_settings c)"

text \<open>The world after \<open>n\<close> calls of the program generator, and generators that time out,
  never answer, or produce candidates of the wrong size.\<close>

fun gen_world :: "('w \<Rightarrow> (error + string) \<times> 'w) \<Rightarrow> 'w \<Rightarrow> nat \<Rightarrow> 'w" where
  "gen_world gen_program w 0 = w"
| "gen_world gen_program w (Suc n) = gen_world gen_program (snd (gen_program w)) n"

definition flaky_generator :: "nat \<Rightarrow> nat \<Rightarrow> (error + string) \<times> nat" where
  "flaky_generator k w = (if w < k then Inl TimeoutExpired else Inr demo_program, Suc w)"

definition stuck_generator :: "nat \<Rightarrow> (error + string) \<times> nat" where
  "stuck_generator w = (Inl TimeoutExpired, Suc w)"

definition slow_dcei_env :: "nat env" where
  "slow_dcei_env = (sim_env (\<lambda>w. 0) demo_func)
     \<lparr>run_cmd := (\<lambda>cmd w. (if w < 2 then Inl TimeoutExpired else Inr [], Suc w))\<rparr>"

definition odd_size_generator :: "nat \<Rightarrow> (error + string) \<times> nat" where
  "odd_size_generator w =
     (if w = 0 then Inr ''int x;'' else if w = 1 then Inr (replicate 101 CHR ''a'')
      else Inr demo_program, Suc w)"

text \<open>The environment in which the Checker answers "not interesting" wherever it raises
  \<open>CompileError\<close> in \<open>env\<close>; and a simulated Builder and Checker that raise it.\<close>

definition reject_on_compile_error :: "'w env \<Rightarrow> 'w env" where
  "reject_on_compile_error env =
     env\<lparr>is_interesting := (\<lambda>c w.
       (case is_interesting env c w of
          (Inl e, w') \<Rightarrow> if e = CompileError then (Inr False, w') else (Inl e, w')
        | (Inr interesting, w') \<Rightarrow> (Inr interesting, w')))\<rparr>"

definition three_attackers :: scenario where
  "three_attackers =
     demo_scenario\<lparr>attacker_settings := attacker_settings demo_scenario @
       [\<lparr>toolchain = ''gcc-11'', flags = [], opt_level = ''O1''\<rparr>]\<rparr>"

definition picky_env :: "nat env" where
  "picky_env = (sim_env (\<lambda>w. 0) demo_func)
     \<lparr>find_alive_markers := (\<lambda>candidate_code s marker_prefix w.
        (if toolchain s = ''clang-trunk'' \<and> w < 2 then Inl CompileError
         else Inr (demo_alive s), w)),
      is_interesting := (\<lambda>c w.
        (if marker c = ''DCEMarker7_'' \<and> opt_level (bad_setting c) = ''O1'' then Inl CompileError
         else Inr (marker c = ''DCEMarker8_''), w))\<rparr>"

definition picky_case :: case_t where
  "picky_case =
     \<lparr>code = demo_instrumented, marker = ''DCEMarker8_'',
      bad_setting =
        \<lparr>toolchain = ''gcc-trunk'', flags = [''-I/usr/include/csmith''], opt_level = ''O1''\<rparr>,
      good_settings =
        [\<lparr>toolchain = ''gcc-11'', flags = [''-I/usr/include/csmith''], opt_level = ''O3''\<rparr>,
         \<lparr>toolchain = ''gcc-11'', flags = [''-I/usr/include/csmith''], opt_level = ''O1''\<rparr>],
      case_scenario = demo_add_flags [''-I/usr/include/csmith''] three_attackers,
      reduced_code = None, bisection = None, path = None\<rparr>"

definition flagged :: "string \<Rightarrow> string \<Rightarrow> compiler_setting" where
  "flagged tc ol = \<lparr>toolchain = tc, flags = [''-I/usr/include/csmith''], opt_level = ol\<rparr>"



definition yarpgen_round ::
  "'w env \<Rightarrow> string \<Rightarrow> 'w \<Rightarrow> completed_process \<times> string \<times> 'w" where
  "yarpgen_round env yarpgen_exe w =
     (case temporary_directory env w of (out_dir, w0) \<Rightarrow>
      case yarpgen_invoke env yarpgen_exe out_dir w0 of (result, w1) \<Rightarrow>
        (result, out_dir, w1))"

definition yarpgen_next :: "'w env \<Rightarrow> string \<Rightarrow> 'w \<Rightarrow> 'w" where
  "yarpgen_next env yarpgen_exe w =
     (case yarpgen_round env yarpgen_exe w of (result, out_dir, w1) \<Rightarrow>
        cleanup_directory env out_dir w1)"

fun yarpgen_world :: "'w env \<Rightarrow> string \<Rightarrow> 'w \<Rightarrow> nat \<Rightarrow> 'w" where
  "yarpgen_world env yarpgen_exe w 0 = w"
| "yarpgen_world env yarpgen_exe w (Suc k) =
     yarpgen_world env yarpgen_exe (yarpgen_next env yarpgen_exe w) k"

definition yarpgen_result :: "'w env \<Rightarrow> string \<Rightarrow> 'w \<Rightarrow> nat \<Rightarrow> completed_process" where
  "yarpgen_result env yarpgen_exe w k =
     fst (yarpgen_round env yarpgen_exe (yarpgen_world env yarpgen_exe w k))"

definition demo_concatenated :: string where
  "demo_concatenated = concat (map (\<lambda>l. l @ [CHR 0x0A])
     [''static void test();'', ''int main() { test(); }'',
      ''/* 1 */'', ''/* 2 */'', ''/* 3 */'', ''/* 4 */'', ''/* 5 */'', ''static void test() { }''])"

section \<open>The discovery loop\<close>

lemma find_bad_Some:
  "find_bad env cc scn mk good gol ta w = (Inr (Some c), w') \<Longrightarrow>
     code c = cc \<and> marker c = mk \<and> good_settings c = good \<and> case_scenario c = scn \<and>
     reduced_code c = None \<and> bisection c = None \<and> path c = None \<and>
     (\<exists>ms. (bad_setting c, ms) \<in> set ta \<and> mk \<in> ms) \<and> opt_level (bad_setting c) \<in> set gol"
proof (induction ta arbitrary: w)
  case Nil
  then show ?case by simp
next
  case (Cons a ta)
  obtain bad ms where a: "a = (bad, ms)" by (cases a)
  from Cons.prems show ?case
    unfolding a
    by (auto split: if_splits prod.splits sum.splits dest!: Cons.IH)
qed

lemma extract_cases_Some:
  "extract_cases env cc scn ta al mks w = (Inr (Some c), w') \<Longrightarrow>
     case_ok c cc scn ta al \<and> marker c \<in> set mks"
proof (induction mks arbitrary: w)
  case Nil
  then show ?case by simp
next
  case (Cons mk mks)
  show ?case
  proof (cases "map fst (filter (\<lambda>(g, ms). mk \<notin> ms) al) = []")
    case True
    with Cons.prems have "extract_cases env cc scn ta al mks w = (Inr (Some c), w')"
      by (simp add: Let_def)
    from Cons.IH[OF this] show ?thesis by auto
  next
    case False
    let ?good = "map fst (filter (\<lambda>(g, ms). mk \<notin> ms) al)"
    obtain r w1 where fb: "find_bad env cc scn mk ?good (map opt_level ?good) ta w = (r, w1)"
      by (cases "find_bad env cc scn mk ?good (map opt_level ?good) ta w")
    show ?thesis
    proof (cases r)
      case (Inl e)
      with Cons.prems False fb show ?thesis by (simp add: Let_def)
    next
      case (Inr oc)
      show ?thesis
      proof (cases oc)
        case None
        with Cons.prems False fb Inr
        have "extract_cases env cc scn ta al mks w1 = (Inr (Some c), w')"
          by (simp add: Let_def)
        from Cons.IH[OF this] show ?thesis by auto
      next
        case (Some c')
        with Cons.prems False fb Inr have c: "c' = c" and "w1 = w'"
          by (simp_all add: Let_def)
        from find_bad_Some[OF fb[unfolded Inr Some c]] False show ?thesis
          by (auto simp: case_ok_def)
      qed
    qed
  qed
qed

text \<open>Every case that leaves the loop was produced by an attempt that generated its code,
  computed both lists of alive markers for it without error and extracted the case from
  them.\<close>

lemma discovery_loop_Some:
  "discovery_loop env g cfg ec scn tc w = Some y \<Longrightarrow>
     (\<forall>c n w'. y = (Inr c, n, w') \<longrightarrow>
        (\<exists>marker_prefix w0 w1 w2 ta al.
           generate_file_py env g cfg ec [] w0 = Some (Inr (marker_prefix, code c), w1) \<and>
           alive_markers env (code c) marker_prefix scn w1 = (Inr (ta, al), w2) \<and>
           case_ok c (code c) scn ta al))"
proof (induction rule: discovery_loop.raw_induct[rotated 1, consumes 1])
  case (1 loop env g cfg ec scn tc w y)
  show ?case
  proof (intro allI impI)
    fix c n w'
    assume y: "y = (Inr c, n, w')"
    from "1.hyps" obtain r w1 where gf: "generate_file_py env g cfg ec [] w = Some (r, w1)"
      by (cases "generate_file_py env g cfg ec [] w") (auto)
    with "1.hyps" y obtain pfx cc where r: "r = Inr (pfx, cc)"
      by (cases r) auto
    obtain ar w2 where am: "alive_markers env cc pfx scn w1 = (ar, w2)"
      by (cases "alive_markers env cc pfx scn w1")
    show "\<exists>marker_prefix w0 w1 w2 ta al.
           generate_file_py env g cfg ec [] w0 = Some (Inr (marker_prefix, code c), w1) \<and>
           alive_markers env (code c) marker_prefix scn w1 = (Inr (ta, al), w2) \<and>
           case_ok c (code c) scn ta al"
    proof (cases ar)
      case (Inl e)
      with "1.hyps" gf r am y have "loop env g cfg ec scn (tc + 1) w2 = Some y"
        by (auto split: if_splits)
      from "1.IH"[OF this] y show ?thesis by blast
    next
      case (Inr lists)
      obtain ta al where lists: "lists = (ta, al)" by (cases lists)
      obtain er w3 where ex:
        "extract_cases env cc scn ta al (set_iter env (\<Union> (set (map snd ta)))) w2 = (er, w3)"
        by (cases "extract_cases env cc scn ta al (set_iter env (\<Union> (set (map snd ta)))) w2")
      show ?thesis
      proof (cases er)
        case (Inl e)
        with "1.hyps" gf r am Inr lists ex y show ?thesis by auto
      next
        case er: (Inr oc)
        show ?thesis
        proof (cases oc)
          case None
          with "1.hyps" gf r am Inr lists ex er
          have "loop env g cfg ec scn (tc + 1) w3 = Some y" by auto
          from "1.IH"[OF this] y show ?thesis by blast
        next
          case (Some c')
          with "1.hyps" gf r am Inr lists ex er y have "c' = c" by auto
          with ex er Some have "extract_cases env cc scn ta al
              (set_iter env (\<Union> (set (map snd ta)))) w2 = (Inr (Some c), w3)" by simp
          from extract_cases_Some[OF this] have ok: "case_ok c cc scn ta al" by simp
          then have cc: "code c = cc" by (simp add: case_ok_def)
          from gf r am Inr lists ok cc show ?thesis by blast
        qed
      qed
    qed
  qed
qed

lemma generate_interesting_case_Some:
  assumes "generate_interesting_case env cfg runner scn w = Some (Inr c, n, w')"
  shows "\<exists>marker_prefix w1 w2 ta al.
           alive_markers env (code c) marker_prefix (case_scenario c) w1 = (Inr (ta, al), w2) \<and>
           case_ok c (code c) (case_scenario c) ta al"
proof -
  obtain g ec fl where runner: "runner = (g, ec, fl)" by (cases runner)
  from assms have "discovery_loop env g cfg ec (add_flags env fl scn) 0 w = Some (Inr c, n, w')"
    by (simp add: generate_interesting_case_def runner)
  from discovery_loop_Some[OF this] obtain pfx w1 w2 ta al where
    am: "alive_markers env (code c) pfx (add_flags env fl scn) w1 = (Inr (ta, al), w2)" and
    ok: "case_ok c (code c) (add_flags env fl scn) ta al"
    by blast
  from ok have scn: "add_flags env fl scn = case_scenario c" by (simp add: case_ok_def)
  from am ok show ?thesis unfolding scn by blast
qed

text \<open>The lists of alive markers hold, for each setting in order, a set the Builder
  returned for it.\<close>

lemma alive_marker_list_Inr:
  "alive_marker_list env cc pfx ss w = (Inr l, w') \<Longrightarrow>
     map fst l = ss \<and>
     (\<forall>(s, ms) \<in> set l. \<exists>w0. fst (find_alive_markers env cc s pfx w0) = Inr ms)"
proof (induction ss arbitrary: w l)
  case Nil
  then show ?case by simp
next
  case (Cons s ss)
  from Cons.prems obtain ms w1 rest where
    s: "find_alive_markers env cc s pfx w = (Inr ms, w1)" and
    rest: "alive_marker_list env cc pfx ss w1 = (Inr rest, w')" and
    l: "l = (s, ms) # rest"
    by (auto split: prod.splits sum.splits)
  from s have "fst (find_alive_markers env cc s pfx w) = Inr ms" by simp
  with Cons.IH[OF rest] l show ?case by auto
qed

lemma alive_markers_Inr:
  assumes "alive_markers env cc pfx scn w = (Inr (ta, al), w')"
  shows "map fst ta = target_settings scn" and "map fst al = attacker_settings scn"
    and "\<forall>(s, ms) \<in> set ta \<union> set al. \<exists>w0. fst (find_alive_markers env cc s pfx w0) = Inr ms"
proof -
  from assms obtain w1 where
    ta: "alive_marker_list env cc pfx (target_settings scn) w = (Inr ta, w1)" and
    al: "alive_marker_list env cc pfx (attacker_settings scn) w1 = (Inr al, w')"
    by (auto simp: alive_markers_def split: prod.splits sum.splits)
  from alive_marker_list_Inr[OF ta] alive_marker_list_Inr[OF al]
  show "map fst ta = target_settings scn" and "map fst al = attacker_settings scn"
    and "\<forall>(s, ms) \<in> set ta \<union> set al. \<exists>w0. fst (find_alive_markers env cc s pfx w0) = Inr ms"
    by auto
qed

subsection \<open>A run on the simulated environment\<close>

lemma demo_run_csmith:
  "run_csmith (sim_env (\<lambda>w. 0) demo_func) ''csmith'' 0 = (Inr demo_program, 1)"
  by (simp add: run_csmith_def run_csmith_loop.simps csmith_invoke_def csmith_options_def
      randint_def sim_env_def)

lemma demo_generate_file:
  "generate_file_py (sim_env (\<lambda>w. 0) demo_func)
     (run_csmith (sim_env (\<lambda>w. 0) demo_func) ''csmith'') demo_config (csmith demo_config) [] 0 =
   Some (Inr (''DCEMarker'', demo_instrumented), 1)"
  unfolding generate_file_py_def
  apply (subst generate_file_loop.simps)
  apply (simp add: demo_run_csmith)
  apply (simp add: demo_config_def demo_program_def instrument_candidate_def
      instrument_program_def sim_env_def)
  done

lemma demo_run:
  "generate_interesting_case (sim_env (\<lambda>w. 0) demo_func) demo_config
     (csmith_runner_details (sim_env (\<lambda>w. 0) demo_func) demo_config) demo_scenario 0 =
   Some (Inr demo_case, 1, 1)"
proof -
  have exe: "executable (csmith demo_config) = ''csmith''"
    by (simp add: demo_config_def)
  have am: "alive_markers (sim_env (\<lambda>w. 0) demo_func) demo_instrumented ''DCEMarker''
      (demo_add_flags [''-I/usr/include/csmith''] demo_scenario) (Suc 0) =
     (Inr ([(\<lparr>toolchain = ''gcc-trunk'', flags = [''-I/usr/include/csmith''],
               opt_level = ''O1''\<rparr>, {''DCEMarker7_'', ''DCEMarker8_''}),
            (\<lparr>toolchain = ''gcc-trunk'', flags = [''-I/usr/include/csmith''],
               opt_level = ''O2''\<rparr>, {''DCEMarker7_''})],
           [(\<lparr>toolchain = ''clang-trunk'', flags = [''-I/usr/include/csmith''],
               opt_level = ''O2''\<rparr>, {''DCEMarker8_''}),
            (\<lparr>toolchain = ''gcc-11'', flags = [''-I/usr/include/csmith''],
               opt_level = ''O3''\<rparr>, {})]), Suc 0)"
    by (simp add: alive_markers_def demo_add_flags_def demo_scenario_def sim_env_def
        demo_alive_def)
  have it: "set_iter (sim_env (\<lambda>w. 0) demo_func) S =
      filter (\<lambda>m. m \<in> S) [''DCEMarker7_'', ''DCEMarker8_'']" for S
    by (simp add: sim_env_def)
  have chk: "is_interesting (sim_env (\<lambda>w. 0) demo_func) c w = (Inr True, w)" for c w
    by (simp add: sim_env_def)
  have af: "add_flags (sim_env (\<lambda>w. 0) demo_func) = demo_add_flags"
    by (simp add: sim_env_def)
  show ?thesis
    unfolding generate_interesting_case_def csmith_runner_details_def exe
    apply (simp only: prod.case)
    apply (subst discovery_loop.simps)
    apply (simp only: af demo_generate_file)
    apply (simp add: am it chk demo_case_def demo_config_def)
    done
qed

subsection \<open>Properties of the returned case\<close>

text \<open>
  Claim C1. Every case returned by \<open>generate_interesting_case\<close> comes from an attempt
  whose \<open>try\<close> block computed, for the code of the case, an alive-marker set for every
  target and attacker setting (each one a set the Builder returned for that setting). The
  marker of the case is a member of the set computed for its bad setting, and it is not a
  member of the set computed for any of its good settings, which are exactly the attacker
  settings whose set lacks the marker.
\<close>

theorem returned_case_marker_alive_in_bad_dead_in_good:
  assumes "generate_interesting_case env cfg runner scn w = Some (Inr c, n, w')"
  shows "\<exists>marker_prefix w1 w2 target_alive tester_alive.
     alive_markers env (code c) marker_prefix (case_scenario c) w1 =
       (Inr (target_alive, tester_alive), w2) \<and>
     (\<forall>(s, ms) \<in> set target_alive \<union> set tester_alive.
        \<exists>w0. fst (find_alive_markers env (code c) s marker_prefix w0) = Inr ms) \<and>
     (\<exists>ms. (bad_setting c, ms) \<in> set target_alive \<and> marker c \<in> ms) \<and>
     (\<forall>g \<in> set (good_settings c). \<exists>ms. (g, ms) \<in> set tester_alive \<and> marker c \<notin> ms) \<and>
     good_settings c = map fst (filter (\<lambda>(g, ms). marker c \<notin> ms) tester_alive)"
proof -
  from generate_interesting_case_Some[OF assms] obtain pfx w1 w2 ta al where
    am: "alive_markers env (code c) pfx (case_scenario c) w1 = (Inr (ta, al), w2)" and
    ok: "case_ok c (code c) (case_scenario c) ta al"
    by blast
  from ok have good: "good_settings c = map fst (filter (\<lambda>(g, ms). marker c \<notin> ms) al)"
    and bad: "\<exists>ms. (bad_setting c, ms) \<in> set ta \<and> marker c \<in> ms"
    unfolding case_ok_def by blast+
  have "\<forall>g \<in> set (good_settings c). \<exists>ms. (g, ms) \<in> set al \<and> marker c \<notin> ms"
    by (subst good) auto
  with am alive_markers_Inr(3)[OF am] good bad show ?thesis by blast
qed

theorem returned_case_marker_alive_in_bad_dead_in_good_witness:
  "generate_interesting_case (sim_env (\<lambda>w. 0) demo_func) demo_config
     (csmith_runner_details (sim_env (\<lambda>w. 0) demo_func) demo_config) demo_scenario 0 =
     Some (Inr demo_case, 1, 1) \<and>
   (\<exists>marker_prefix w1 w2 target_alive tester_alive.
     alive_markers (sim_env (\<lambda>w. 0) demo_func) (code demo_case) marker_prefix
       (case_scenario demo_case) w1 = (Inr (target_alive, tester_alive), w2) \<and>
     (\<forall>(s, ms) \<in> set target_alive \<union> set tester_alive.
        \<exists>w0. fst (find_alive_markers (sim_env (\<lambda>w. 0) demo_func) (code demo_case) s
                 marker_prefix w0) = Inr ms) \<and>
     (\<exists>ms. (bad_setting demo_case, ms) \<in> set target_alive \<and> marker demo_case \<in> ms) \<and>
     (\<forall>g \<in> set (good_settings demo_case).
        \<exists>ms. (g, ms) \<in> set tester_alive \<and> marker demo_case \<notin> ms) \<and>
     good_settings demo_case =
       map fst (filter (\<lambda>(g, ms). marker demo_case \<notin> ms) tester_alive))"
  using returned_case_marker_alive_in_bad_dead_in_good[OF demo_run] demo_run by blast

text \<open>
  Claim C2. For every case returned by \<open>generate_interesting_case\<close>, the optimization
  level of the bad setting is the optimization level of one of the good settings.
\<close>

theorem returned_case_tier_matching:
  assumes "generate_interesting_case env cfg runner scn w = Some (Inr c, n, w')"
  shows "opt_level (bad_setting c) \<in> opt_level ` set (good_settings c)"
proof -
  from generate_interesting_case_Some[OF assms] obtain ta al where
    "case_ok c (code c) (case_scenario c) ta al"
    by blast
  then show ?thesis unfolding case_ok_def by blast
qed

theorem returned_case_tier_matching_witness:
  "generate_interesting_case (sim_env (\<lambda>w. 0) demo_func) demo_config
     (csmith_runner_details (sim_env (\<lambda>w. 0) demo_func) demo_config) demo_scenario 0 =
     Some (Inr demo_case, 1, 1) \<and>
   opt_level (bad_setting demo_case) = ''O2'' \<and>
   ''O2'' \<in> opt_level ` set (good_settings demo_case)"
  using returned_case_tier_matching[OF demo_run] demo_run by (simp add: demo_case_def)

text \<open>
  Claim C10. Every case returned by \<open>generate_interesting_case\<close> has a non-empty list of
  good settings, and its \<open>reduced_code\<close>, \<open>bisection\<close> and \<open>path\<close> are all \<open>None\<close>.
\<close>

theorem returned_case_good_nonempty_rest_none:
  assumes "generate_interesting_case env cfg runner scn w = Some (Inr c, n, w')"
  shows "good_settings c \<noteq> [] \<and> reduced_code c = None \<and> bisection c = None \<and> path c = None"
proof -
  from generate_interesting_case_Some[OF assms] obtain ta al where
    "case_ok c (code c) (case_scenario c) ta al"
    by blast
  then show ?thesis unfolding case_ok_def by blast
qed

theorem returned_case_good_nonempty_rest_none_witness:
  "generate_interesting_case (sim_env (\<lambda>w. 0) demo_func) demo_config
     (csmith_runner_details (sim_env (\<lambda>w. 0) demo_func) demo_config) demo_scenario 0 =
     Some (Inr demo_case, 1, 1) \<and>
   good_settings demo_case \<noteq> [] \<and> reduced_code demo_case = None \<and>
   bisection demo_case = None \<and> path demo_case = None"
  using returned_case_good_nonempty_rest_none[OF demo_run] demo_run by simp

section \<open>The instrumentation pipeline\<close>

lemma gen_world_0: "gen_world g w 0 = w"
  by simp

lemma gen_world_Suc: "gen_world g w (Suc n) = gen_world g (snd (g w)) n"
  by simp

lemma generate_file_loop_timeout:
  "fst (g w) = Inl TimeoutExpired \<Longrightarrow>
     generate_file_loop env g cfg ec fl w = generate_file_loop env g cfg ec fl (snd (g w))"
  by (subst generate_file_loop.simps) (cases "g w", simp)

lemma generate_file_loop_timeouts:
  "\<forall>i<n. fst (g (gen_world g w i)) = Inl TimeoutExpired \<Longrightarrow>
     generate_file_loop env g cfg ec fl w = generate_file_loop env g cfg ec fl (gen_world g w n)"
proof (induction n arbitrary: w)
  case 0
  then show ?case by (simp add: gen_world_0)
next
  case (Suc n)
  from Suc.prems have first: "fst (g w) = Inl TimeoutExpired"
    by (auto simp: gen_world_0 dest: spec[of _ 0])
  from Suc.prems have "\<forall>i<n. fst (g (gen_world g (snd (g w)) i)) = Inl TimeoutExpired"
    by (auto simp: gen_world_Suc dest: spec[of _ "Suc _"])
  from Suc.IH[OF this] generate_file_loop_timeout[of g w, OF first] show ?case
    by (simp add: gen_world_Suc)
qed

lemma generate_file_loop_no_timeout:
  "generate_file_loop env g cfg ec fl w = Some y \<Longrightarrow> fst y \<noteq> Inl TimeoutExpired"
proof (induction rule: generate_file_loop.raw_induct[rotated 1, consumes 1])
  case (1 loop env g cfg ec fl w y)
  obtain r w1 where g: "g w = (r, w1)" by (cases "g w")
  show ?case
  proof (cases r)
    case (Inl e)
    with "1.hyps" g "1.IH" show ?thesis
      by (cases "e = TimeoutExpired") auto
  next
    case (Inr candidate)
    obtain ir w2 where ic: "instrument_candidate env cfg ec fl candidate w1 = (ir, w2)"
      by (cases "instrument_candidate env cfg ec fl candidate w1")
    have step: "(case ir of
        Inl e \<Rightarrow> if e = TimeoutExpired then loop env g cfg ec fl w2 else Some (Inl e, w2)
      | Inr instrumented \<Rightarrow> Some (Inr instrumented, w2)) = Some y \<or>
      loop env g cfg ec fl w1 = Some y"
      using "1.hyps" by (simp add: g Inr ic split: if_splits)
    then show ?thesis
    proof
      assume "loop env g cfg ec fl w1 = Some y"
      then show ?thesis by (rule "1.IH")
    next
      assume *: "(case ir of
        Inl e \<Rightarrow> if e = TimeoutExpired then loop env g cfg ec fl w2 else Some (Inl e, w2)
      | Inr instrumented \<Rightarrow> Some (Inr instrumented, w2)) = Some y"
      show ?thesis
      proof (cases ir)
        case (Inl e)
        with * "1.IH" show ?thesis by (cases "e = TimeoutExpired") auto
      next
        case (Inr instrumented)
        with * show ?thesis by auto
      qed
    qed
  qed
qed

lemma generate_file_loop_returns_progress:
  "generate_file_loop env g cfg ec fl w = Some y \<Longrightarrow>
     \<exists>i. fst (g (gen_world g w i)) \<noteq> Inl TimeoutExpired"
proof (induction rule: generate_file_loop.raw_induct[rotated 1, consumes 1])
  case (1 loop env g cfg ec fl w y)
  show ?case
  proof (cases "fst (g w) = Inl TimeoutExpired")
    case True
    with "1.hyps" have "loop env g cfg ec fl (snd (g w)) = Some y"
      by (cases "g w") auto
    from "1.IH"[OF this] obtain i where "fst (g (gen_world g (snd (g w)) i)) \<noteq> Inl TimeoutExpired"
      by blast
    then have "fst (g (gen_world g w (Suc i))) \<noteq> Inl TimeoutExpired"
      by (simp add: gen_world_Suc)
    then show ?thesis by blast
  next
    case False
    then have "fst (g (gen_world g w 0)) \<noteq> Inl TimeoutExpired"
      by (simp add: gen_world_0)
    then show ?thesis by blast
  qed
qed

lemma generate_file_loop_instrument_timeout:
  "g w = (Inr candidate, w1) \<Longrightarrow> \<not> int (length candidate) > max_size ec \<Longrightarrow>
   \<not> int (length candidate) < min_size ec \<Longrightarrow>
   instrument_candidate env cfg ec fl candidate w1 = (Inl TimeoutExpired, w2) \<Longrightarrow>
   generate_file_loop env g cfg ec fl w = generate_file_loop env g cfg ec fl w2"
  by (subst generate_file_loop.simps) simp

lemma generate_file_loop_discard:
  "g w = (Inr candidate, w1) \<Longrightarrow>
   int (length candidate) > max_size ec \<or> int (length candidate) < min_size ec \<Longrightarrow>
   generate_file_loop env g cfg ec fl w = generate_file_loop env g cfg ec fl w1"
  by (subst generate_file_loop.simps) auto

lemma generate_file_loop_accepted:
  "generate_file_loop env g cfg ec fl w = Some y \<Longrightarrow>
     (\<forall>r w'. y = (Inr r, w') \<longrightarrow>
       (\<exists>candidate wa wb. g wa = (Inr candidate, wb) \<and>
          min_size ec \<le> int (length candidate) \<and> int (length candidate) \<le> max_size ec \<and>
          instrument_candidate env cfg ec fl candidate wb = (Inr r, w')))"
proof (induction rule: generate_file_loop.raw_induct[rotated 1, consumes 1])
  case (1 loop env g cfg ec fl w y)
  from "1.hyps" show ?case
    apply (auto split: prod.splits sum.splits if_splits dest!: "1.IH")
    apply force
    done
qed

text \<open>
  Claim C5. A \<open>TimeoutExpired\<close> raised inside the loop of \<open>generate_file\<close>, by the
  program generator or by a later step of the same round, is caught and the loop starts
  again from the world the timeout left. Any number \<open>n\<close> of timeouts in a row is retried;
  \<open>generate_file\<close> never ends with \<open>TimeoutExpired\<close>, and when every call of the
  generator times out it never returns.
\<close>

theorem generate_file_swallows_timeouts:
  "((\<forall>i<n. fst (gen_program (gen_world gen_program w i)) = Inl TimeoutExpired) \<longrightarrow>
      generate_file_py env gen_program cfg ec fl w =
      generate_file_py env gen_program cfg ec fl (gen_world gen_program w n)) \<and>
   (gen_program w = (Inr candidate, w1) \<and>
    \<not> int (length candidate) > max_size ec \<and> \<not> int (length candidate) < min_size ec \<and>
    instrument_candidate env cfg ec (fl @ '' -I '' @ include_path ec) candidate w1 =
      (Inl TimeoutExpired, w2) \<longrightarrow>
      generate_file_py env gen_program cfg ec fl w =
      generate_file_py env gen_program cfg ec fl w2) \<and>
   generate_file_py env gen_program cfg ec fl w \<noteq> Some (Inl TimeoutExpired, w') \<and>
   ((\<forall>i. fst (gen_program (gen_world gen_program w i)) = Inl TimeoutExpired) \<longrightarrow>
      generate_file_py env gen_program cfg ec fl w = None)"
proof (intro conjI impI)
  assume "\<forall>i<n. fst (gen_program (gen_world gen_program w i)) = Inl TimeoutExpired"
  then show "generate_file_py env gen_program cfg ec fl w =
      generate_file_py env gen_program cfg ec fl (gen_world gen_program w n)"
    unfolding generate_file_py_def by (rule generate_file_loop_timeouts)
next
  assume "gen_program w = (Inr candidate, w1) \<and>
    \<not> int (length candidate) > max_size ec \<and> \<not> int (length candidate) < min_size ec \<and>
    instrument_candidate env cfg ec (fl @ '' -I '' @ include_path ec) candidate w1 =
      (Inl TimeoutExpired, w2)"
  then show "generate_file_py env gen_program cfg ec fl w =
      generate_file_py env gen_program cfg ec fl w2"
    unfolding generate_file_py_def by (intro generate_file_loop_instrument_timeout) auto
next
  show "generate_file_py env gen_program cfg ec fl w \<noteq> Some (Inl TimeoutExpired, w')"
    unfolding generate_file_py_def using generate_file_loop_no_timeout by fastforce
next
  assume all: "\<forall>i. fst (gen_program (gen_world gen_program w i)) = Inl TimeoutExpired"
  show "generate_file_py env gen_program cfg ec fl w = None"
  proof (cases "generate_file_py env gen_program cfg ec fl w")
    case None
    then show ?thesis .
  next
    case (Some y)
    then have "\<exists>i. fst (gen_program (gen_world gen_program w i)) \<noteq> Inl TimeoutExpired"
      unfolding generate_file_py_def by (rule generate_file_loop_returns_progress)
    with all show ?thesis by blast
  qed
qed

lemma demo_instrument_candidate:
  "instrument_candidate (sim_env rc func) demo_config (csmith demo_config) fl demo_program w =
     (Inr (''DCEMarker'', demo_instrumented), w)"
  by (simp add: demo_config_def instrument_candidate_def instrument_program_def sim_env_def)

lemma demo_sizes:
  "\<not> int (length demo_program) > max_size (csmith demo_config)"
  "\<not> int (length demo_program) < min_size (csmith demo_config)"
  by (simp_all add: demo_config_def demo_program_def)

lemma flaky_run:
  "generate_file_py (sim_env (\<lambda>w. 0) demo_func) (flaky_generator 3) demo_config
     (csmith demo_config) [] 3 = Some (Inr (''DCEMarker'', demo_instrumented), 4)"
  unfolding generate_file_py_def
  by (subst generate_file_loop.simps)
     (simp add: flaky_generator_def demo_instrument_candidate demo_sizes)

lemma slow_dcei_first:
  "instrument_candidate slow_dcei_env demo_config (csmith demo_config)
     ([] @ '' -I '' @ include_path (csmith demo_config)) demo_program 1 = (Inl TimeoutExpired, 2)"
  by (simp add: demo_config_def instrument_candidate_def instrument_program_def sim_env_def slow_dcei_env_def)

lemma slow_dcei_second:
  "generate_file_py slow_dcei_env (flaky_generator 0) demo_config (csmith demo_config) [] 2 =
     Some (Inr (''DCEMarker'', demo_instrumented), 4)"
  unfolding generate_file_py_def
  apply (subst generate_file_loop.simps)
  apply (simp add: flaky_generator_def demo_sizes)
  apply (simp add: demo_config_def instrument_candidate_def instrument_program_def sim_env_def slow_dcei_env_def)
  done

theorem generate_file_swallows_timeouts_witness:
  "fst (flaky_generator 3 (gen_world (flaky_generator 3) 0 0)) = Inl TimeoutExpired \<and>
   fst (flaky_generator 3 (gen_world (flaky_generator 3) 0 1)) = Inl TimeoutExpired \<and>
   fst (flaky_generator 3 (gen_world (flaky_generator 3) 0 2)) = Inl TimeoutExpired \<and>
   generate_file_py (sim_env (\<lambda>w. 0) demo_func) (flaky_generator 3) demo_config
     (csmith demo_config) [] 0 = Some (Inr (''DCEMarker'', demo_instrumented), 4) \<and>
   flaky_generator 0 0 = (Inr demo_program, 1) \<and>
   instrument_candidate slow_dcei_env demo_config (csmith demo_config)
     ([] @ '' -I '' @ include_path (csmith demo_config)) demo_program 1 = (Inl TimeoutExpired, 2) \<and>
   generate_file_py slow_dcei_env (flaky_generator 0) demo_config (csmith demo_config) [] 0 =
     Some (Inr (''DCEMarker'', demo_instrumented), 4) \<and>
   (\<forall>i. fst (stuck_generator (gen_world stuck_generator 0 i)) = Inl TimeoutExpired) \<and>
   generate_file_py (sim_env (\<lambda>w. 0) demo_func) stuck_generator demo_config
     (csmith demo_config) [] 0 = None"
proof -
  have t3: "\<forall>i<3. fst (flaky_generator 3 (gen_world (flaky_generator 3) 0 i)) = Inl TimeoutExpired"
    by (simp add: numeral_3_eq_3 less_Suc_eq flaky_generator_def)
  have w3: "gen_world (flaky_generator 3) 0 3 = 3"
    by (simp add: numeral_3_eq_3 flaky_generator_def)
  have g0: "flaky_generator 0 0 = (Inr demo_program, 1)"
    by (simp add: flaky_generator_def)
  have stuck: "\<forall>i. fst (stuck_generator (gen_world stuck_generator 0 i)) = Inl TimeoutExpired"
    by (simp add: stuck_generator_def)
  from generate_file_swallows_timeouts[of 3 "flaky_generator 3" 0 "sim_env (\<lambda>w. 0) demo_func"
      demo_config "csmith demo_config" "[]"] t3 w3 flaky_run
  have a: "generate_file_py (sim_env (\<lambda>w. 0) demo_func) (flaky_generator 3) demo_config
     (csmith demo_config) [] 0 = Some (Inr (''DCEMarker'', demo_instrumented), 4)"
    by simp
  from generate_file_swallows_timeouts[of _ "flaky_generator 0" 0 slow_dcei_env
      demo_config "csmith demo_config" "[]" demo_program 1 2] g0 demo_sizes slow_dcei_first
    slow_dcei_second
  have b: "generate_file_py slow_dcei_env (flaky_generator 0) demo_config (csmith demo_config) [] 0 =
     Some (Inr (''DCEMarker'', demo_instrumented), 4)"
    by simp
  from generate_file_swallows_timeouts[of _ stuck_generator 0 "sim_env (\<lambda>w. 0) demo_func"
      demo_config "csmith demo_config" "[]"] stuck
  have c: "generate_file_py (sim_env (\<lambda>w. 0) demo_func) stuck_generator demo_config
     (csmith demo_config) [] 0 = None"
    by blast
  have "fst (flaky_generator 3 (gen_world (flaky_generator 3) 0 0)) = Inl TimeoutExpired"
    and "fst (flaky_generator 3 (gen_world (flaky_generator 3) 0 1)) = Inl TimeoutExpired"
    and "fst (flaky_generator 3 (gen_world (flaky_generator 3) 0 2)) = Inl TimeoutExpired"
    by (simp_all add: numeral_2_eq_2 flaky_generator_def)
  with a g0 slow_dcei_first b stuck c show ?thesis by blast
qed

text \<open>
  Claim C6. A candidate longer than \<open>max_size\<close> or shorter than \<open>min_size\<close> is dropped
  and the loop asks for a new one; every instrumented program that \<open>generate_file\<close>
  returns is the instrumentation of a candidate whose length lies between \<open>min_size\<close>
  and \<open>max_size\<close>, both included; and a candidate within these bounds is the one that is
  instrumented in its round.
\<close>

theorem generate_file_size_bound:
  "(gen_program w = (Inr candidate, w1) \<and>
    (int (length candidate) > max_size ec \<or> int (length candidate) < min_size ec) \<longrightarrow>
      generate_file_py env gen_program cfg ec fl w =
      generate_file_py env gen_program cfg ec fl w1) \<and>
   (generate_file_py env gen_program cfg ec fl w = Some (Inr (marker_prefix, text), w') \<longrightarrow>
      (\<exists>accepted wa wb.
         gen_program wa = (Inr accepted, wb) \<and>
         min_size ec \<le> int (length accepted) \<and> int (length accepted) \<le> max_size ec \<and>
         instrument_candidate env cfg ec (fl @ '' -I '' @ include_path ec) accepted wb =
           (Inr (marker_prefix, text), w'))) \<and>
   (gen_program w = (Inr candidate, w1) \<and>
    min_size ec \<le> int (length candidate) \<and> int (length candidate) \<le> max_size ec \<longrightarrow>
      generate_file_py env gen_program cfg ec fl w =
      (case instrument_candidate env cfg ec (fl @ '' -I '' @ include_path ec) candidate w1 of
         (Inl e, w2) \<Rightarrow>
           if e = TimeoutExpired then generate_file_py env gen_program cfg ec fl w2
           else Some (Inl e, w2)
       | (Inr instrumented, w2) \<Rightarrow> Some (Inr instrumented, w2)))"
proof (intro conjI impI)
  assume "gen_program w = (Inr candidate, w1) \<and>
    min_size ec \<le> int (length candidate) \<and> int (length candidate) \<le> max_size ec"
  then show "generate_file_py env gen_program cfg ec fl w =
      (case instrument_candidate env cfg ec (fl @ '' -I '' @ include_path ec) candidate w1 of
         (Inl e, w2) \<Rightarrow>
           if e = TimeoutExpired then generate_file_py env gen_program cfg ec fl w2
           else Some (Inl e, w2)
       | (Inr instrumented, w2) \<Rightarrow> Some (Inr instrumented, w2))"
    unfolding generate_file_py_def by (subst generate_file_loop.simps) auto
next
  assume "gen_program w = (Inr candidate, w1) \<and>
    (int (length candidate) > max_size ec \<or> int (length candidate) < min_size ec)"
  then show "generate_file_py env gen_program cfg ec fl w =
      generate_file_py env gen_program cfg ec fl w1"
    unfolding generate_file_py_def by (intro generate_file_loop_discard) auto
next
  assume "generate_file_py env gen_program cfg ec fl w = Some (Inr (marker_prefix, text), w')"
  then show "\<exists>accepted wa wb.
         gen_program wa = (Inr accepted, wb) \<and>
         min_size ec \<le> int (length accepted) \<and> int (length accepted) \<le> max_size ec \<and>
         instrument_candidate env cfg ec (fl @ '' -I '' @ include_path ec) accepted wb =
           (Inr (marker_prefix, text), w')"
    unfolding generate_file_py_def by (blast dest: generate_file_loop_accepted)
qed

theorem generate_file_size_bound_witness:
  "odd_size_generator 0 = (Inr ''int x;'', 1) \<and>
   int (length ''int x;'') < min_size (csmith demo_config) \<and>
   odd_size_generator 1 = (Inr (replicate 101 CHR ''a''), 2) \<and>
   int (length (replicate 101 CHR ''a'')) > max_size (csmith demo_config) \<and>
   odd_size_generator 2 = (Inr demo_program, 3) \<and>
   min_size (csmith demo_config) \<le> int (length demo_program) \<and>
   int (length demo_program) \<le> max_size (csmith demo_config) \<and>
   generate_file_py (sim_env (\<lambda>w. 0) demo_func) odd_size_generator demo_config
     (csmith demo_config) [] 0 = Some (Inr (''DCEMarker'', demo_instrumented), 3) \<and>
   (\<exists>accepted wa wb.
      odd_size_generator wa = (Inr accepted, wb) \<and>
      min_size (csmith demo_config) \<le> int (length accepted) \<and>
      int (length accepted) \<le> max_size (csmith demo_config) \<and>
      instrument_candidate (sim_env (\<lambda>w. 0) demo_func) demo_config (csmith demo_config)
        ([] @ '' -I '' @ include_path (csmith demo_config)) accepted wb =
        (Inr (''DCEMarker'', demo_instrumented), 3))"
proof -
  have g0: "odd_size_generator 0 = (Inr ''int x;'', 1)"
    and g1: "odd_size_generator 1 = (Inr (replicate 101 CHR ''a''), 2)"
    by (simp_all add: odd_size_generator_def)
  have small: "int (length ''int x;'') < min_size (csmith demo_config)"
    and large: "int (length (replicate 101 CHR ''a'')) > max_size (csmith demo_config)"
    by (simp_all add: demo_config_def)
  note sb = generate_file_size_bound[of odd_size_generator _ _ _ "csmith demo_config"
      "sim_env (\<lambda>w. 0) demo_func" demo_config "[]"]
  from sb[of 0 "''int x;''" 1] g0 small
  have s0: "generate_file_py (sim_env (\<lambda>w. 0) demo_func) odd_size_generator demo_config
     (csmith demo_config) [] 0 = generate_file_py (sim_env (\<lambda>w. 0) demo_func) odd_size_generator
     demo_config (csmith demo_config) [] 1"
    by blast
  from sb[of 1 "replicate 101 CHR ''a''" 2] g1 large
  have s1: "generate_file_py (sim_env (\<lambda>w. 0) demo_func) odd_size_generator demo_config
     (csmith demo_config) [] 1 = generate_file_py (sim_env (\<lambda>w. 0) demo_func) odd_size_generator
     demo_config (csmith demo_config) [] 2"
    by blast
  have g2: "odd_size_generator 2 = (Inr demo_program, 3)"
    by (simp add: odd_size_generator_def)
  from sb[of 2 demo_program 3] g2 demo_sizes
  have "generate_file_py (sim_env (\<lambda>w. 0) demo_func) odd_size_generator demo_config
     (csmith demo_config) [] 2 =
     (case instrument_candidate (sim_env (\<lambda>w. 0) demo_func) demo_config (csmith demo_config)
             ([] @ '' -I '' @ include_path (csmith demo_config)) demo_program 3 of
        (Inl e, w2) \<Rightarrow>
          if e = TimeoutExpired
          then generate_file_py (sim_env (\<lambda>w. 0) demo_func) odd_size_generator demo_config
                 (csmith demo_config) [] w2
          else Some (Inl e, w2)
      | (Inr instrumented, w2) \<Rightarrow> Some (Inr instrumented, w2))"
    by simp
  then have s2: "generate_file_py (sim_env (\<lambda>w. 0) demo_func) odd_size_generator demo_config
     (csmith demo_config) [] 2 = Some (Inr (''DCEMarker'', demo_instrumented), 3)"
    by (simp add: demo_instrument_candidate)
  from s0 s1 s2
  have run: "generate_file_py (sim_env (\<lambda>w. 0) demo_func) odd_size_generator demo_config
     (csmith demo_config) [] 0 = Some (Inr (''DCEMarker'', demo_instrumented), 3)"
    by simp
  from sb[of 0 _ _ "''DCEMarker''" demo_instrumented 3] run
  have "\<exists>accepted wa wb.
      odd_size_generator wa = (Inr accepted, wb) \<and>
      min_size (csmith demo_config) \<le> int (length accepted) \<and>
      int (length accepted) \<le> max_size (csmith demo_config) \<and>
      instrument_candidate (sim_env (\<lambda>w. 0) demo_func) demo_config (csmith demo_config)
        ([] @ '' -I '' @ include_path (csmith demo_config)) accepted wb =
        (Inr (''DCEMarker'', demo_instrumented), 3)"
    by blast
  moreover have "min_size (csmith demo_config) \<le> int (length demo_program)"
    and "int (length demo_program) \<le> max_size (csmith demo_config)"
    using demo_sizes by simp_all
  ultimately show ?thesis using g0 g1 g2 small large run by blast
qed

section \<open>Compile errors in the discovery loop\<close>

lemma alive_marker_list_append:
  "alive_marker_list env cc pfx (xs @ ys) w =
     (case alive_marker_list env cc pfx xs w of
        (Inl e, w') \<Rightarrow> (Inl e, w')
      | (Inr l, w') \<Rightarrow>
          (case alive_marker_list env cc pfx ys w' of
             (Inl e, w'') \<Rightarrow> (Inl e, w'')
           | (Inr l', w'') \<Rightarrow> (Inr (l @ l'), w'')))"
  by (induction xs arbitrary: w) (auto split: prod.splits sum.splits)

lemma alive_markers_append:
  "alive_markers env cc pfx scn w =
     (case alive_marker_list env cc pfx (target_settings scn @ attacker_settings scn) w of
        (Inl e, w') \<Rightarrow> (Inl e, w')
      | (Inr l, w') \<Rightarrow>
          (Inr (take (length (target_settings scn)) l, drop (length (target_settings scn)) l), w'))"
proof -
  have len: "alive_marker_list env cc pfx ss w0 = (Inr l, w1) \<Longrightarrow> length l = length ss"
    for ss w0 l w1
    by (induction ss arbitrary: w0 l) (auto split: prod.splits sum.splits)
  show ?thesis
    by (auto simp: alive_markers_def alive_marker_list_append split: prod.splits sum.splits
        dest: len)
qed

lemma alive_markers_first_error:
  assumes "target_settings scn @ attacker_settings scn = pre @ s # post"
    and "alive_marker_list env cc pfx pre w = (Inr computed, wk)"
    and "find_alive_markers env cc s pfx wk = (Inl e, w2)"
  shows "alive_markers env cc pfx scn w = (Inl e, w2)"
proof -
  from assms(3) have "alive_marker_list env cc pfx (s # post) wk = (Inl e, w2)"
    by simp
  with assms(2) have "alive_marker_list env cc pfx (pre @ s # post) w = (Inl e, w2)"
    by (simp add: alive_marker_list_append)
  then show ?thesis
    by (simp add: alive_markers_append assms(1))
qed

lemma discovery_loop_abort:
  assumes "generate_file_py env g cfg ec [] w = Some (Inr (pfx, cc), w1)"
    and "alive_markers env cc pfx scn w1 = (Inl CompileError, w2)"
  shows "discovery_loop env g cfg ec scn tc w = discovery_loop env g cfg ec scn (tc + 1) w2"
  by (subst discovery_loop.simps) (simp add: assms)

lemma find_bad_compile_error_step:
  assumes "mk \<in> bad_alive" and "opt_level bad \<in> set gol"
    and "is_interesting env
           \<lparr>code = cc, marker = mk, bad_setting = bad, good_settings = good,
            case_scenario = scn, reduced_code = None, bisection = None, path = None\<rparr> w =
         (Inl CompileError, w')"
  shows "find_bad env cc scn mk good gol ((bad, bad_alive) # rest) w =
         find_bad env cc scn mk good gol rest w'"
  using assms by simp

lemma is_interesting_reject:
  "is_interesting (reject_on_compile_error env) c w =
     (case is_interesting env c w of
        (Inl e, w') \<Rightarrow> if e = CompileError then (Inr False, w') else (Inl e, w')
      | (Inr interesting, w') \<Rightarrow> (Inr interesting, w'))"
  by (simp add: reject_on_compile_error_def)

lemma find_bad_reject:
  "find_bad (reject_on_compile_error env) cc scn mk good gol ta w =
   find_bad env cc scn mk good gol ta w"
proof (induction ta arbitrary: w)
  case Nil
  then show ?case by simp
next
  case (Cons a ta)
  obtain bad ms where a: "a = (bad, ms)" by (cases a)
  show ?case
    unfolding a
    by (auto simp: Cons.IH is_interesting_reject split: prod.splits sum.splits)
qed

lemma extract_cases_reject:
  "extract_cases (reject_on_compile_error env) cc scn ta al mks w =
   extract_cases env cc scn ta al mks w"
  by (induction mks arbitrary: w)
     (auto simp: find_bad_reject Let_def split: prod.splits sum.splits option.splits)

lemma find_bad_no_compile_error:
  "find_bad env cc scn mk good gol ta w \<noteq> (Inl CompileError, w')"
proof (induction ta arbitrary: w)
  case Nil
  then show ?case by simp
next
  case (Cons a ta)
  obtain bad ms where a: "a = (bad, ms)" by (cases a)
  show ?case
    unfolding a
    by (auto simp: Cons.IH split: prod.splits sum.splits)
qed

lemma extract_cases_no_compile_error:
  "extract_cases env cc scn ta al mks w \<noteq> (Inl CompileError, w')"
proof (induction mks arbitrary: w)
  case Nil
  then show ?case by simp
next
  case (Cons mk mks)
  let ?good = "map fst (filter (\<lambda>(g, ms). mk \<notin> ms) al)"
  obtain r w1 where fb: "find_bad env cc scn mk ?good (map opt_level ?good) ta w = (r, w1)"
    by (cases "find_bad env cc scn mk ?good (map opt_level ?good) ta w")
  with find_bad_no_compile_error[of env cc scn mk ?good "map opt_level ?good" ta w w1]
  have r: "r \<noteq> Inl CompileError" by auto
  show ?case
  proof (cases "?good = []")
    case True
    with Cons.IH show ?thesis by (simp add: Let_def)
  next
    case False
    with fb r Cons.IH show ?thesis
      by (cases r) (auto simp: Let_def split: option.splits)
  qed
qed

lemma discovery_loop_no_compile_error:
  "discovery_loop env g cfg ec scn tc w = Some y \<Longrightarrow>
     (\<forall>wa wb. generate_file_py env g cfg ec [] wa \<noteq> Some (Inl CompileError, wb)) \<longrightarrow>
     fst y \<noteq> Inl CompileError"
proof (induction rule: discovery_loop.raw_induct[rotated 1, consumes 1])
  case (1 loop env g cfg ec scn tc w y)
  show ?case
  proof
    assume gen: "\<forall>wa wb. generate_file_py env g cfg ec [] wa \<noteq> Some (Inl CompileError, wb)"
    from "1.hyps" obtain r w1 where gf: "generate_file_py env g cfg ec [] w = Some (r, w1)"
      by (cases "generate_file_py env g cfg ec [] w") auto
    show "fst y \<noteq> Inl CompileError"
    proof (cases r)
      case (Inl e)
      with gf gen have "e \<noteq> CompileError" by auto
      with "1.hyps" gf Inl show ?thesis by auto
    next
      case (Inr pc)
      obtain pfx cc where pc: "pc = (pfx, cc)" by (cases pc)
      obtain ar w2 where am: "alive_markers env cc pfx scn w1 = (ar, w2)"
        by (cases "alive_markers env cc pfx scn w1")
      show ?thesis
      proof (cases ar)
        case (Inl e)
        show ?thesis
        proof (cases "e = CompileError")
          case True
          with "1.hyps" have "loop env g cfg ec scn (tc + 1) w2 = Some y"
            by (simp add: gf Inr pc am Inl)
          from "1.IH"[OF this] gen show ?thesis by blast
        next
          case False
          with "1.hyps" show ?thesis
            by (auto simp add: gf Inr pc am Inl)
        qed
      next
        case lists: (Inr lists)
        obtain ta al where l: "lists = (ta, al)" by (cases lists)
        obtain er w3 where ex:
          "extract_cases env cc scn ta al (set_iter env (\<Union> (set (map snd ta)))) w2 = (er, w3)"
          by (cases "extract_cases env cc scn ta al (set_iter env (\<Union> (set (map snd ta)))) w2")
        show ?thesis
        proof (cases er)
          case erl: (Inl e)
          with ex extract_cases_no_compile_error have "e \<noteq> CompileError" by metis
          with "1.hyps" gf Inr pc am lists l ex erl show ?thesis
            by auto
        next
          case er: (Inr oc)
          show ?thesis
          proof (cases oc)
            case None
            with "1.hyps" gf Inr pc am lists l ex er
            have "loop env g cfg ec scn (tc + 1) w3 = Some y"
              by auto
            from "1.IH"[OF this] gen show ?thesis by blast
          next
            case (Some c)
            with "1.hyps" gf Inr pc am lists l ex er show ?thesis
              by auto
          qed
        qed
      qed
    qed
  qed
qed

text \<open>
  Claim C3. (1) When \<open>find_alive_markers\<close> raises \<open>CompileError\<close> for any target or
  attacker setting, the attempt ends there and the loop goes on with a fresh attempt from
  the world the error left. (2) When \<open>is_interesting\<close> raises \<open>CompileError\<close> for a
  tentative case, the scan goes on with the remaining target settings; (3) the whole scan
  over markers and settings gives what it would give if every such error were the answer
  "not interesting". (4) Unless the generation stage itself raises it,
  \<open>generate_interesting_case\<close> never ends with \<open>CompileError\<close>.
\<close>

theorem compile_error_recovery:
  "(generate_file_py env g cfg ec [] w = Some (Inr (marker_prefix, candidate_code), w1) \<and>
    target_settings scn @ attacker_settings scn = pre @ s # post \<and>
    alive_marker_list env candidate_code marker_prefix pre w1 = (Inr computed, wk) \<and>
    find_alive_markers env candidate_code s marker_prefix wk = (Inl CompileError, w2) \<longrightarrow>
      discovery_loop env g cfg ec scn tc w = discovery_loop env g cfg ec scn (tc + 1) w2) \<and>
   (mk \<in> bad_alive \<and> opt_level bad \<in> set good_opt_levels \<and>
    is_interesting env
      \<lparr>code = cc, marker = mk, bad_setting = bad, good_settings = good,
       case_scenario = scn, reduced_code = None, bisection = None, path = None\<rparr> wc =
      (Inl CompileError, wc') \<longrightarrow>
      find_bad env cc scn mk good good_opt_levels ((bad, bad_alive) # rest) wc =
      find_bad env cc scn mk good good_opt_levels rest wc') \<and>
   extract_cases env cc scn target_alive tester_alive mks wc =
     extract_cases (reject_on_compile_error env) cc scn target_alive tester_alive mks wc \<and>
   ((\<forall>wa wb. generate_file_py env g cfg ec [] wa \<noteq> Some (Inl CompileError, wb)) \<longrightarrow>
      generate_interesting_case env cfg (g, ec, fl) scn w \<noteq> Some (Inl CompileError, n, w'))"
proof (intro conjI impI)
  assume a: "generate_file_py env g cfg ec [] w = Some (Inr (marker_prefix, candidate_code), w1) \<and>
    target_settings scn @ attacker_settings scn = pre @ s # post \<and>
    alive_marker_list env candidate_code marker_prefix pre w1 = (Inr computed, wk) \<and>
    find_alive_markers env candidate_code s marker_prefix wk = (Inl CompileError, w2)"
  then have "alive_markers env candidate_code marker_prefix scn w1 = (Inl CompileError, w2)"
    by (blast intro: alive_markers_first_error)
  with a show "discovery_loop env g cfg ec scn tc w = discovery_loop env g cfg ec scn (tc + 1) w2"
    by (blast intro: discovery_loop_abort)
next
  assume "mk \<in> bad_alive \<and> opt_level bad \<in> set good_opt_levels \<and>
    is_interesting env
      \<lparr>code = cc, marker = mk, bad_setting = bad, good_settings = good,
       case_scenario = scn, reduced_code = None, bisection = None, path = None\<rparr> wc =
      (Inl CompileError, wc')"
  then show "find_bad env cc scn mk good good_opt_levels ((bad, bad_alive) # rest) wc =
      find_bad env cc scn mk good good_opt_levels rest wc'"
    by (intro find_bad_compile_error_step) auto
next
  show "extract_cases env cc scn target_alive tester_alive mks wc =
     extract_cases (reject_on_compile_error env) cc scn target_alive tester_alive mks wc"
    by (simp add: extract_cases_reject)
next
  assume gen: "\<forall>wa wb. generate_file_py env g cfg ec [] wa \<noteq> Some (Inl CompileError, wb)"
  show "generate_interesting_case env cfg (g, ec, fl) scn w \<noteq> Some (Inl CompileError, n, w')"
  proof
    assume "generate_interesting_case env cfg (g, ec, fl) scn w = Some (Inl CompileError, n, w')"
    then have "discovery_loop env g cfg ec (add_flags env fl scn) 0 w =
        Some (Inl CompileError, n, w')"
      by (simp add: generate_interesting_case_def)
    from discovery_loop_no_compile_error[OF this] gen show False by simp
  qed
qed

lemma picky_run_csmith:
  "run_csmith picky_env ''csmith'' w = (Inr demo_program, Suc w)"
  by (simp add: run_csmith_def run_csmith_loop.simps csmith_invoke_def csmith_options_def
      randint_def sim_env_def picky_env_def)

lemma picky_generate_file:
  "generate_file_py picky_env (run_csmith picky_env ''csmith'') demo_config (csmith demo_config) [] w =
   Some (Inr (''DCEMarker'', demo_instrumented), Suc w)"
  unfolding generate_file_py_def
  apply (subst generate_file_loop.simps)
  apply (simp add: picky_run_csmith)
  apply (simp add: demo_config_def demo_program_def instrument_candidate_def
      instrument_program_def sim_env_def picky_env_def)
  done

lemma three_attackers_flagged:
  "demo_add_flags [''-I/usr/include/csmith''] three_attackers =
     \<lparr>target_settings = [flagged ''gcc-trunk'' ''O1'', flagged ''gcc-trunk'' ''O2''],
      attacker_settings = [flagged ''clang-trunk'' ''O2'', flagged ''gcc-11'' ''O3'',
                           flagged ''gcc-11'' ''O1'']\<rparr>"
  by (simp add: demo_add_flags_def three_attackers_def demo_scenario_def flagged_def)

lemma picky_alive:
  "find_alive_markers picky_env cc s pfx w =
     (if toolchain s = ''clang-trunk'' \<and> w < 2 then Inl CompileError else Inr (demo_alive s), w)"
  by (simp add: picky_env_def)

lemma picky_interesting:
  "is_interesting picky_env c w =
     (if marker c = ''DCEMarker7_'' \<and> opt_level (bad_setting c) = ''O1'' then Inl CompileError
      else Inr (marker c = ''DCEMarker8_''), w)"
  by (simp add: picky_env_def)

lemma picky_iter:
  "set_iter picky_env S = filter (\<lambda>m. m \<in> S) [''DCEMarker7_'', ''DCEMarker8_'']"
  by (simp add: picky_env_def sim_env_def)

lemma picky_second_attempt:
  "discovery_loop picky_env (run_csmith picky_env ''csmith'') demo_config (csmith demo_config)
     (demo_add_flags [''-I/usr/include/csmith''] three_attackers) 1 1 =
   Some (Inr picky_case, 2, 2)"
  apply (subst discovery_loop.simps)
  apply (simp only: picky_generate_file)
  apply (simp add: alive_markers_def three_attackers_flagged picky_alive picky_interesting
      picky_iter demo_alive_def flagged_def picky_case_def demo_add_flags_def three_attackers_def
      demo_scenario_def Let_def)
  done

theorem compile_error_recovery_witness:
  "generate_file_py picky_env (run_csmith picky_env ''csmith'') demo_config (csmith demo_config)
     [] 0 = Some (Inr (''DCEMarker'', demo_instrumented), 1) \<and>
   target_settings (demo_add_flags [''-I/usr/include/csmith''] three_attackers) @
   attacker_settings (demo_add_flags [''-I/usr/include/csmith''] three_attackers) =
     [flagged ''gcc-trunk'' ''O1'', flagged ''gcc-trunk'' ''O2''] @ flagged ''clang-trunk'' ''O2'' #
     [flagged ''gcc-11'' ''O3'', flagged ''gcc-11'' ''O1''] \<and>
   alive_marker_list picky_env demo_instrumented ''DCEMarker''
     [flagged ''gcc-trunk'' ''O1'', flagged ''gcc-trunk'' ''O2''] 1 =
     (Inr [(flagged ''gcc-trunk'' ''O1'', {''DCEMarker7_'', ''DCEMarker8_''}),
           (flagged ''gcc-trunk'' ''O2'', {''DCEMarker7_''})], 1) \<and>
   find_alive_markers picky_env demo_instrumented (flagged ''clang-trunk'' ''O2'') ''DCEMarker'' 1 =
     (Inl CompileError, 1) \<and>
   generate_interesting_case picky_env demo_config
     (run_csmith picky_env ''csmith'', csmith demo_config, [''-I/usr/include/csmith''])
     three_attackers 0 = Some (Inr picky_case, 2, 2) \<and>
   is_interesting picky_env
     \<lparr>code = demo_instrumented, marker = ''DCEMarker7_'',
      bad_setting = flagged ''gcc-trunk'' ''O1'',
      good_settings = [flagged ''clang-trunk'' ''O2'', flagged ''gcc-11'' ''O3'',
                       flagged ''gcc-11'' ''O1''],
      case_scenario = demo_add_flags [''-I/usr/include/csmith''] three_attackers,
      reduced_code = None, bisection = None, path = None\<rparr> 2 = (Inl CompileError, 2) \<and>
   find_bad picky_env demo_instrumented
     (demo_add_flags [''-I/usr/include/csmith''] three_attackers) ''DCEMarker7_''
     [flagged ''clang-trunk'' ''O2'', flagged ''gcc-11'' ''O3'', flagged ''gcc-11'' ''O1'']
     [''O2'', ''O3'', ''O1'']
     [(flagged ''gcc-trunk'' ''O1'', {''DCEMarker7_'', ''DCEMarker8_''}),
      (flagged ''gcc-trunk'' ''O2'', {''DCEMarker7_''})] 2 = (Inr None, 2) \<and>
   (\<forall>wa wb. generate_file_py picky_env (run_csmith picky_env ''csmith'') demo_config
      (csmith demo_config) [] wa \<noteq> Some (Inl CompileError, wb)) \<and>
   generate_interesting_case picky_env demo_config
     (run_csmith picky_env ''csmith'', csmith demo_config, [''-I/usr/include/csmith''])
     three_attackers 0 \<noteq> Some (Inl CompileError, 2, 2)"
proof -
  let ?g = "run_csmith picky_env ''csmith''"
  let ?scn = "demo_add_flags [''-I/usr/include/csmith''] three_attackers"
  let ?good = "[flagged ''clang-trunk'' ''O2'', flagged ''gcc-11'' ''O3'', flagged ''gcc-11'' ''O1'']"
  let ?c7 = "\<lparr>code = demo_instrumented, marker = ''DCEMarker7_'',
      bad_setting = flagged ''gcc-trunk'' ''O1'', good_settings = ?good,
      case_scenario = ?scn, reduced_code = None, bisection = None, path = None\<rparr>"
  have gf: "generate_file_py picky_env ?g demo_config (csmith demo_config) [] 0 =
      Some (Inr (''DCEMarker'', demo_instrumented), 1)"
    by (simp add: picky_generate_file)
  have split: "target_settings ?scn @ attacker_settings ?scn =
     [flagged ''gcc-trunk'' ''O1'', flagged ''gcc-trunk'' ''O2''] @ flagged ''clang-trunk'' ''O2'' #
     [flagged ''gcc-11'' ''O3'', flagged ''gcc-11'' ''O1'']"
    by (simp add: three_attackers_flagged)
  have pre: "alive_marker_list picky_env demo_instrumented ''DCEMarker''
     [flagged ''gcc-trunk'' ''O1'', flagged ''gcc-trunk'' ''O2''] 1 =
     (Inr [(flagged ''gcc-trunk'' ''O1'', {''DCEMarker7_'', ''DCEMarker8_''}),
           (flagged ''gcc-trunk'' ''O2'', {''DCEMarker7_''})], 1)"
    by (simp add: picky_alive flagged_def demo_alive_def)
  have err: "find_alive_markers picky_env demo_instrumented (flagged ''clang-trunk'' ''O2'')
      ''DCEMarker'' 1 = (Inl CompileError, 1)"
    by (simp add: picky_alive flagged_def)
  have chk: "is_interesting picky_env ?c7 2 = (Inl CompileError, 2)"
    by (simp add: picky_interesting flagged_def)
  have gen: "\<forall>wa wb. generate_file_py picky_env ?g demo_config (csmith demo_config) [] wa \<noteq>
      Some (Inl CompileError, wb)"
    by (simp add: picky_generate_file)
  have "discovery_loop picky_env ?g demo_config (csmith demo_config) ?scn 0 0 =
      discovery_loop picky_env ?g demo_config (csmith demo_config) ?scn (0 + 1) 1"
    using gf split pre err
    by (intro compile_error_recovery[THEN conjunct1, THEN mp]) blast
  with picky_second_attempt
  have run: "generate_interesting_case picky_env demo_config
     (?g, csmith demo_config, [''-I/usr/include/csmith'']) three_attackers 0 =
     Some (Inr picky_case, 2, 2)"
    by (simp add: generate_interesting_case_def picky_env_def sim_env_def)
  have "find_bad picky_env demo_instrumented ?scn ''DCEMarker7_'' ?good [''O2'', ''O3'', ''O1'']
     ((flagged ''gcc-trunk'' ''O1'', {''DCEMarker7_'', ''DCEMarker8_''}) #
      [(flagged ''gcc-trunk'' ''O2'', {''DCEMarker7_''})]) 2 =
     find_bad picky_env demo_instrumented ?scn ''DCEMarker7_'' ?good [''O2'', ''O3'', ''O1'']
     [(flagged ''gcc-trunk'' ''O2'', {''DCEMarker7_''})] 2"
    using chk
    by (intro compile_error_recovery[THEN conjunct2, THEN conjunct1, THEN mp])
       (simp add: flagged_def)
  also have "\<dots> = (Inr None, 2)"
    by (simp add: picky_interesting flagged_def)
  finally have fb: "find_bad picky_env demo_instrumented ?scn ''DCEMarker7_'' ?good
     [''O2'', ''O3'', ''O1'']
     [(flagged ''gcc-trunk'' ''O1'', {''DCEMarker7_'', ''DCEMarker8_''}),
      (flagged ''gcc-trunk'' ''O2'', {''DCEMarker7_''})] 2 = (Inr None, 2)" .
  have ne': "generate_interesting_case picky_env demo_config
     (?g, csmith demo_config, [''-I/usr/include/csmith'']) three_attackers 0 \<noteq>
     Some (Inl CompileError, 2, 2)"
    using gen
    by (intro compile_error_recovery[THEN conjunct2, THEN conjunct2, THEN conjunct2, THEN mp])
  from gf split pre err run chk fb gen ne' show ?thesis by blast
qed

section \<open>The program generators\<close>




lemma run_yarpgen_loop_unfold:
  "run_yarpgen_loop env exe tries w =
     (case yarpgen_round env exe w of (result, out_dir, w1) \<Rightarrow>
        if returncode result = 0
        then (yarpgen_collect env out_dir w1, cleanup_directory env out_dir w1)
        else if tries + 1 > 100
          then (Inl (PyException ''YARPGen failed 10 times in a row!''),
                cleanup_directory env out_dir w1)
          else run_yarpgen_loop env exe (tries + 1) (yarpgen_next env exe w))"
  by (subst run_yarpgen_loop.simps)
     (simp add: yarpgen_round_def yarpgen_next_def split: prod.splits)


lemma run_yarpgen_loop_ok:
  "tries + k \<le> 100 \<Longrightarrow> \<forall>i<k. returncode (yarpgen_result env exe w i) \<noteq> 0 \<Longrightarrow>
   yarpgen_round env exe (yarpgen_world env exe w k) = (result, out_dir, w1) \<Longrightarrow>
   returncode result = 0 \<Longrightarrow>
     fst (run_yarpgen_loop env exe tries w) = yarpgen_collect env out_dir w1"
proof (induction k arbitrary: tries w)
  case 0
  then show ?case
    by (subst run_yarpgen_loop_unfold) simp
next
  case (Suc k)
  from Suc.prems(2) have first: "returncode (yarpgen_result env exe w 0) \<noteq> 0" by simp
  let ?w = "yarpgen_next env exe w"
  from Suc.prems(2) have rest: "\<forall>i<k. returncode (yarpgen_result env exe ?w i) \<noteq> 0"
    by (auto simp: yarpgen_result_def dest: spec[of _ "Suc _"])
  from Suc.prems(3) have last: "yarpgen_round env exe (yarpgen_world env exe ?w k) =
      (result, out_dir, w1)"
    by simp
  from Suc.prems(1) have "(tries + 1) + k \<le> 100" by simp
  from Suc.IH[OF this rest last Suc.prems(4)] first Suc.prems(1) show ?case
    by (subst run_yarpgen_loop_unfold) (auto simp: yarpgen_result_def split: prod.splits)
qed

lemma concat_readlines: "concat (readlines s) = s"
  by (induction s) (auto split: list.splits)

lemma replace_from_at_occurrence:
  "old \<noteq> [] \<Longrightarrow> replace_from old new (old @ s) = new @ replace_from old new s"
  by (cases old) simp_all

lemma replace_from_no_occurrence:
  "\<forall>a b. s \<noteq> a @ old @ b \<Longrightarrow> replace_from old new s = s"
proof (induction s)
  case Nil
  then show ?case by simp
next
  case (Cons c s)
  have "take (length old) (c # s) \<noteq> old"
  proof
    assume "take (length old) (c # s) = old"
    then have "c # s = [] @ old @ drop (length old) (c # s)"
      by (metis append_Nil append_take_drop_id)
    with Cons.prems show False by blast
  qed
  moreover have "\<forall>a b. s \<noteq> a @ old @ b"
  proof (intro allI notI)
    fix a b assume "s = a @ old @ b"
    then have "c # s = (c # a) @ old @ b" by simp
    with Cons.prems show False by blast
  qed
  ultimately show ?case using Cons.IH by simp
qed

lemma yarpgen_collect_read:
  assumes "read_text env (pjoin out_dir ''driver.c'') w = Inr driver"
    and "read_text env (pjoin out_dir ''func.c'') w = Inr func"
  shows "yarpgen_collect env out_dir w =
     (if length (readlines func) \<le> 5 then Inl IndexError
      else if readlines func ! 5 \<noteq> init_include then Inl AssertionError
      else Inr (replace ''void test'' ''static void test''
             (driver @ concat (take 5 (readlines func)) @ concat (drop 6 (readlines func)))))"
  using assms
  by (simp add: yarpgen_collect_def gen_files_def yarpgen_concat_def concat_readlines)

subsection \<open>The generators on the simulated environment\<close>




lemma sim_yarpgen_round:
  "yarpgen_round (sim_env rc func) exe w =
     (\<lparr>returncode = rc w, stdout = demo_program\<rparr>, ''/tmp/yarpgen'', Suc w)"
  by (simp add: yarpgen_round_def yarpgen_invoke_def nsa_options_def tf_options_def randint_def
      sim_env_def)

lemma sim_yarpgen_world: "yarpgen_world (sim_env rc func) exe w k = w + k"
  by (induction k arbitrary: w) (simp_all add: yarpgen_next_def sim_yarpgen_round, simp add: sim_env_def)

lemma sim_yarpgen_result:
  "yarpgen_result (sim_env rc func) exe w k = \<lparr>returncode = rc (w + k), stdout = demo_program\<rparr>"
  by (simp add: yarpgen_result_def sim_yarpgen_world sim_yarpgen_round)

lemma sim_read_driver:
  "read_text (sim_env rc func) (pjoin ''/tmp/yarpgen'' ''driver.c'') w = Inr demo_driver"
  by (simp add: sim_env_def pjoin_def)

lemma sim_read_func:
  "read_text (sim_env rc func) (pjoin ''/tmp/yarpgen'' ''func.c'') w = Inr func"
  by (simp add: sim_env_def pjoin_def)

lemma readlines_demo_func:
  "readlines demo_func = map (\<lambda>l. l @ [CHR 0x0A])
     [''/* 1 */'', ''/* 2 */'', ''/* 3 */'', ''/* 4 */'', ''/* 5 */'', ''#include \"init.h\"'',
      ''void test() { }'']"
  by (simp add: demo_func_def)







text \<open>
  Claim C7. When YARPGen exits with 0 (at the first run, or after up to 100 failed runs),
  \<open>run_yarpgen\<close> reads \<open>driver.c\<close> and \<open>func.c\<close>, checks that the sixth line of
  \<open>func.c\<close> is the include of \<open>init.h\<close>, and returns \<open>driver.c\<close> followed by
  \<open>func.c\<close> without that line, with \<open>void test\<close> replaced by \<open>static void test\<close>
  throughout. When the check fails it raises instead.
\<close>

theorem run_yarpgen_success:
  assumes "k \<le> 100"
    and "\<forall>i<k. returncode (yarpgen_result env exe w i) \<noteq> 0"
    and "yarpgen_round env exe (yarpgen_world env exe w k) = (result, out_dir, w1)"
    and "returncode result = 0"
    and "read_text env (pjoin out_dir ''driver.c'') w1 = Inr driver"
    and "read_text env (pjoin out_dir ''func.c'') w1 = Inr func"
  shows "fst (run_yarpgen env exe w) =
     (if length (readlines func) \<le> 5 then Inl IndexError
      else if readlines func ! 5 \<noteq> init_include then Inl AssertionError
      else Inr (replace ''void test'' ''static void test''
             (driver @ concat (take 5 (readlines func)) @ concat (drop 6 (readlines func)))))"
proof -
  from assms(1-4) have "fst (run_yarpgen env exe w) = yarpgen_collect env out_dir w1"
    unfolding run_yarpgen_def by (intro run_yarpgen_loop_ok[where k = k and result = result]) simp_all
  with yarpgen_collect_read[OF assms(5,6)] show ?thesis by simp
qed

theorem run_yarpgen_success_witness:
  "returncode (yarpgen_result (sim_env (\<lambda>w. if w < 2 then 1 else 0) demo_func) ''yarpgen'' 0 0) \<noteq> 0 \<and>
   returncode (yarpgen_result (sim_env (\<lambda>w. if w < 2 then 1 else 0) demo_func) ''yarpgen'' 0 1) \<noteq> 0 \<and>
   yarpgen_round (sim_env (\<lambda>w. if w < 2 then 1 else 0) demo_func) ''yarpgen''
     (yarpgen_world (sim_env (\<lambda>w. if w < 2 then 1 else 0) demo_func) ''yarpgen'' 0 2) =
     (\<lparr>returncode = 0, stdout = demo_program\<rparr>, ''/tmp/yarpgen'', 3) \<and>
   read_text (sim_env (\<lambda>w. if w < 2 then 1 else 0) demo_func)
     (pjoin ''/tmp/yarpgen'' ''driver.c'') 3 = Inr demo_driver \<and>
   read_text (sim_env (\<lambda>w. if w < 2 then 1 else 0) demo_func)
     (pjoin ''/tmp/yarpgen'' ''func.c'') 3 = Inr demo_func \<and>
   length (readlines demo_func) = 7 \<and> readlines demo_func ! 5 = init_include \<and>
   fst (run_yarpgen (sim_env (\<lambda>w. if w < 2 then 1 else 0) demo_func) ''yarpgen'' 0) =
     Inr demo_concatenated"
proof -
  let ?E = "sim_env (\<lambda>w. if w < 2 then 1 else 0) demo_func"
  have fails: "\<forall>i<2. returncode (yarpgen_result ?E ''yarpgen'' 0 i) \<noteq> 0"
    by (simp add: sim_yarpgen_result)
  have round: "yarpgen_round ?E ''yarpgen'' (yarpgen_world ?E ''yarpgen'' 0 2) =
     (\<lparr>returncode = 0, stdout = demo_program\<rparr>, ''/tmp/yarpgen'', 3)"
    by (simp add: sim_yarpgen_round sim_yarpgen_world)
  have len: "length (readlines demo_func) = 7" and inc: "readlines demo_func ! 5 = init_include"
    by (simp_all add: readlines_demo_func init_include_def)
  from run_yarpgen_success[OF _ fails round _ sim_read_driver sim_read_func]
  have "fst (run_yarpgen ?E ''yarpgen'' 0) =
      Inr (replace ''void test'' ''static void test''
             (demo_driver @ concat (take 5 (readlines demo_func)) @
              concat (drop 6 (readlines demo_func))))"
    by (simp add: len inc)
  then have res: "fst (run_yarpgen ?E ''yarpgen'' 0) = Inr demo_concatenated"
    by (simp add: readlines_demo_func demo_driver_def demo_concatenated_def replace_def)
  from fails round len inc res show ?thesis
    by (simp add: sim_read_driver sim_read_func)
qed

end
